theory Spec2Isabelle
  imports Main "HOL-Library.Sublist" "HOL-Library.AList" "HOL-Library.Word"
begin

section \<open>JavaScript values shared by the modules\<close>

text \<open>
  A thrown JavaScript exception is a value: \<open>Error msg\<close> for \<^verbatim>\<open>throw new Error(msg)\<close>,
  \<open>TypeError msg\<close> for the type errors raised by the runtime and by the native binding,
  \<open>RangeError msg\<close> for a size that the runtime refuses.
\<close>

datatype js_error = Error string | TypeError string | RangeError string

type_synonym byte = "8 word"
type_synonym buffer = "byte list"

section \<open>Metadata\<close>

text \<open>
  An entry value is text, or binary for a key that ends in \<^verbatim>\<open>-bin\<close>.
  A metadata collection is its list of entries, in insertion order.
\<close>

datatype md_value = Text string | Binary buffer

type_synonym metadata = "(string \<times> md_value) list"

text \<open>The lower-case letter of an upper-case ASCII letter; any other character is kept.\<close>

definition lower_char :: "char \<Rightarrow> char" where
  "lower_char c =
     (case map_of (zip ''ABCDEFGHIJKLMNOPQRSTUVWXYZ'' ''abcdefghijklmnopqrstuvwxyz'') c of
        Some l \<Rightarrow> l
      | None \<Rightarrow> c)"

text \<open>Modelled from the spec: the Metadata class (metadata.js is not among the sources);
  keys are case-insensitive for equality.\<close>

definition same_key :: "string \<Rightarrow> string \<Rightarrow> bool" where
  "same_key k k' = (map lower_char k = map lower_char k')"

text \<open>Modelled from the spec: \<^verbatim>\<open>new Metadata()\<close> of metadata.js, a collection with no entry.\<close>

definition Metadata_new :: metadata where
  "Metadata_new = []"

text \<open>Modelled from the spec: \<^verbatim>\<open>Metadata.get\<close> of metadata.js, the ordered list of the
  values under the key, empty if the key is absent.\<close>

definition md_get :: "metadata \<Rightarrow> string \<Rightarrow> md_value list" where
  "md_get md k = map snd (filter (\<lambda>e. same_key (fst e) k) md)"

text \<open>Modelled from the spec: \<^verbatim>\<open>Metadata.set\<close> of metadata.js, which replaces all the
  values under the key.\<close>

definition md_set :: "metadata \<Rightarrow> string \<Rightarrow> md_value \<Rightarrow> metadata" where
  "md_set md k v = filter (\<lambda>e. \<not> same_key (fst e) k) md @ [(k, v)]"

text \<open>Modelled from the spec: \<^verbatim>\<open>Metadata.add\<close> of metadata.js, which appends a value.\<close>

definition md_add :: "metadata \<Rightarrow> string \<Rightarrow> md_value \<Rightarrow> metadata" where
  "md_add md k v = md @ [(k, v)]"

section \<open>The interop test service\<close>

definition ECHO_INITIAL_KEY :: string where
  "ECHO_INITIAL_KEY = ''x-grpc-test-echo-initial''"

definition ECHO_TRAILING_KEY :: string where
  "ECHO_TRAILING_KEY = ''x-grpc-test-echo-trailing-bin''"

text \<open>
  \<^verbatim>\<open>new Buffer(size)\<close> belongs to the runtime: it throws a RangeError for a size that is
  negative or above the greatest length of a buffer, \<open>kMaxLength\<close>, which depends on the
  runtime and is an argument here. \<^verbatim>\<open>zeros.fill(0)\<close> makes every byte zero.
\<close>

definition zeroBuffer :: "int \<Rightarrow> int \<Rightarrow> js_error + buffer" where
  "zeroBuffer kMaxLength size' =
     (if 0 \<le> size' \<and> size' \<le> kMaxLength then Inr (replicate (nat size') 0)
      else Inl (RangeError ''Invalid buffer size''))"

datatype payload_type = COMPRESSABLE | UNCOMPRESSABLE | RANDOM

record payload =
  p_type :: "payload_type option"
  p_body :: buffer

text \<open>The sizes of test.proto are 32-bit integers, negative ones among them.\<close>

record response_parameter =
  rp_size :: int

text \<open>
  The request messages of test.proto, with the fields the handlers read. A message field
  that was not set decodes to null, hence \<open>req_payload\<close> is optional.
\<close>

record request =
  response_type :: payload_type
  response_size :: int
  response_parameters :: "response_parameter list"
  req_payload :: "payload option"

datatype response =
  EmptyResponse
  | PayloadResponse payload
  | AggregateResponse nat

text \<open>What a handler does to its call, in order.\<close>

datatype action =
  SendMetadata metadata
  | Callback response metadata
  | Write response
  | End metadata

text \<open>
  A handler that throws stops where it is: the result holds the actions done so far and
  the exception, if any.
\<close>

type_synonym outcome = "action list \<times> js_error option"

definition echoHeader :: "metadata \<Rightarrow> action list" where
  "echoHeader call_metadata =
     (let echo_initial = md_get call_metadata ECHO_INITIAL_KEY in
      case echo_initial of
        [] \<Rightarrow> []
      | v # _ \<Rightarrow> [SendMetadata (md_set Metadata_new ECHO_INITIAL_KEY v)])"

definition getEchoTrailer :: "metadata \<Rightarrow> metadata" where
  "getEchoTrailer call_metadata =
     (let echo_trailer = md_get call_metadata ECHO_TRAILING_KEY;
          response_trailer = Metadata_new in
      case echo_trailer of
        [] \<Rightarrow> response_trailer
      | v # _ \<Rightarrow> md_set response_trailer ECHO_TRAILING_KEY v)"

text \<open>
  \<^verbatim>\<open>Math.random() < 0.5\<close> is the argument \<open>coin\<close>: the handlers consult it only for
  the payload type \<open>RANDOM\<close>.
\<close>

definition pick_payload_type :: "bool \<Rightarrow> payload_type \<Rightarrow> payload_type" where
  "pick_payload_type coin payload_type =
     (if payload_type = RANDOM then (if coin then COMPRESSABLE else UNCOMPRESSABLE)
      else payload_type)"

definition handleEmpty :: "metadata \<Rightarrow> outcome" where
  "handleEmpty call_metadata =
     (echoHeader call_metadata @ [Callback EmptyResponse (getEchoTrailer call_metadata)], None)"

text \<open>\<^verbatim>\<open>handleUnary\<close> echoes the header before it allocates the buffer: when the
  allocation throws, the header has been sent and nothing else is.\<close>

definition handleUnary :: "int \<Rightarrow> bool \<Rightarrow> metadata \<Rightarrow> request \<Rightarrow> outcome" where
  "handleUnary kMaxLength coin call_metadata req =
     (case zeroBuffer kMaxLength (response_size req) of
        Inl e \<Rightarrow> (echoHeader call_metadata, Some e)
      | Inr zeros \<Rightarrow>
          (let payload_type = pick_payload_type coin (response_type req) in
           (echoHeader call_metadata @
              [Callback (PayloadResponse \<lparr>p_type = Some payload_type, p_body = zeros\<rparr>)
                 (getEchoTrailer call_metadata)], None)))"

text \<open>
  The \<^verbatim>\<open>'data'\<close> listener of \<^verbatim>\<open>handleStreamingInput\<close>:
  \<^verbatim>\<open>aggregate_size += value.payload.body.length\<close>, a TypeError when the message has no
  payload. The sizes are natural numbers: a JavaScript number holds every integer up to
  \<open>2 ^ 53\<close> exactly.
\<close>

definition on_data_aggregate :: "nat \<Rightarrow> request \<Rightarrow> js_error + nat" where
  "on_data_aggregate aggregate_size v =
     (case req_payload v of
        None \<Rightarrow> Inl (TypeError ''Cannot read property 'body' of null'')
      | Some p \<Rightarrow> Inr (aggregate_size + length (p_body p)))"

fun aggregate_all :: "nat \<Rightarrow> request list \<Rightarrow> js_error + nat" where
  "aggregate_all aggregate_size [] = Inr aggregate_size"
| "aggregate_all aggregate_size (v # vs) =
     (case on_data_aggregate aggregate_size v of
        Inl e \<Rightarrow> Inl e
      | Inr a \<Rightarrow> aggregate_all a vs)"

text \<open>
  \<open>handleStreamingInput\<close> on a call whose stream delivers the messages \<open>vs\<close> and then
  \<^verbatim>\<open>'end'\<close>.
\<close>

definition handleStreamingInput :: "metadata \<Rightarrow> request list \<Rightarrow> outcome" where
  "handleStreamingInput call_metadata vs =
     (case aggregate_all 0 vs of
        Inl e \<Rightarrow> (echoHeader call_metadata, Some e)
      | Inr aggregate_size \<Rightarrow>
          (echoHeader call_metadata @
             [Callback (AggregateResponse aggregate_size) (getEchoTrailer call_metadata)],
           None))"

text \<open>
  \<^verbatim>\<open>_.each(response_parameters, function(resp_param) { call.write(...); })\<close>: one write
  for each entry, in order, until an allocation throws. The result is the writes done and
  the exception, if any.
\<close>

fun write_payloads :: "int \<Rightarrow> payload_type \<Rightarrow> response_parameter list \<Rightarrow> outcome" where
  "write_payloads kMaxLength payload_type [] = ([], None)"
| "write_payloads kMaxLength payload_type (resp_param # ps) =
     (case zeroBuffer kMaxLength (rp_size resp_param) of
        Inl e \<Rightarrow> ([], Some e)
      | Inr zeros \<Rightarrow>
          (case write_payloads kMaxLength payload_type ps of
             (writes, thrown) \<Rightarrow>
               (Write (PayloadResponse \<lparr>p_type = Some payload_type, p_body = zeros\<rparr>) # writes,
                thrown)))"

definition handleStreamingOutput :: "int \<Rightarrow> bool \<Rightarrow> metadata \<Rightarrow> request \<Rightarrow> outcome" where
  "handleStreamingOutput kMaxLength coin call_metadata req =
     (let payload_type = pick_payload_type coin (response_type req) in
      case write_payloads kMaxLength payload_type (response_parameters req) of
        (writes, Some e) \<Rightarrow> (echoHeader call_metadata @ writes, Some e)
      | (writes, None) \<Rightarrow>
          (echoHeader call_metadata @ writes @ [End (getEchoTrailer call_metadata)], None))"

text \<open>
  The \<^verbatim>\<open>'data'\<close> listener of \<^verbatim>\<open>handleFullDuplex\<close> on the messages of the stream, in
  order, until it throws; \<open>coins\<close> gives the coin of each message.
\<close>

fun duplex_writes :: "int \<Rightarrow> bool list \<Rightarrow> request list \<Rightarrow> outcome" where
  "duplex_writes kMaxLength coins [] = ([], None)"
| "duplex_writes kMaxLength coins (v # vs) =
     (case write_payloads kMaxLength
             (pick_payload_type (case coins of [] \<Rightarrow> False | c # _ \<Rightarrow> c) (response_type v))
             (response_parameters v) of
        (writes, Some e) \<Rightarrow> (writes, Some e)
      | (writes, None) \<Rightarrow>
          (case duplex_writes kMaxLength (tl coins) vs of
             (later, thrown) \<Rightarrow> (writes @ later, thrown)))"

definition handleFullDuplex :: "int \<Rightarrow> bool list \<Rightarrow> metadata \<Rightarrow> request list \<Rightarrow> outcome" where
  "handleFullDuplex kMaxLength coins call_metadata vs =
     (case duplex_writes kMaxLength coins vs of
        (writes, Some e) \<Rightarrow> (echoHeader call_metadata @ writes, Some e)
      | (writes, None) \<Rightarrow>
          (echoHeader call_metadata @ writes @ [End (getEchoTrailer call_metadata)], None))"

definition handleHalfDuplex :: "metadata \<Rightarrow> outcome" where
  "handleHalfDuplex call_metadata = ([], Some (Error ''HalfDuplexCall not yet implemented''))"

text \<open>
  An inbound call, by method of the service, with the request or the stream of requests
  that the handler receives.
\<close>

datatype inbound =
  emptyCall
  | unaryCall request
  | streamingOutputCall request
  | streamingInputCall "request list"
  | fullDuplexCall "request list"
  | halfDuplexCall

text \<open>The handlers that \<^verbatim>\<open>getServer\<close> registers with \<^verbatim>\<open>addProtoService\<close>, by method.\<close>

definition TestService :: "int \<Rightarrow> bool list \<Rightarrow> metadata \<Rightarrow> inbound \<Rightarrow> outcome" where
  "TestService kMaxLength coins call_metadata inbound_call =
     (case inbound_call of
        emptyCall \<Rightarrow> handleEmpty call_metadata
      | unaryCall req \<Rightarrow>
          handleUnary kMaxLength (case coins of [] \<Rightarrow> False | c # _ \<Rightarrow> c) call_metadata req
      | streamingOutputCall req \<Rightarrow>
          handleStreamingOutput kMaxLength (case coins of [] \<Rightarrow> False | c # _ \<Rightarrow> c)
            call_metadata req
      | streamingInputCall vs \<Rightarrow> handleStreamingInput call_metadata vs
      | fullDuplexCall vs \<Rightarrow> handleFullDuplex kMaxLength coins call_metadata vs
      | halfDuplexCall \<Rightarrow> handleHalfDuplex call_metadata)"

text \<open>The trailing metadata that an action carries: the third argument of the callback,
  the argument of \<^verbatim>\<open>call.end\<close>.\<close>

fun trailer_of :: "action \<Rightarrow> metadata option" where
  "trailer_of (Callback r t) = Some t"
| "trailer_of (End t) = Some t"
| "trailer_of (SendMetadata m) = None"
| "trailer_of (Write r) = None"

fun is_SendMetadata :: "action \<Rightarrow> bool" where
  "is_SendMetadata (SendMetadata m) = True"
| "is_SendMetadata (Callback r t) = False"
| "is_SendMetadata (Write r) = False"
| "is_SendMetadata (End t) = False"

section \<open>Credentials\<close>

text \<open>Modelled from the spec: a call credential (the native CallCredentials class is not
  among the sources) carries a metadata-producing function of the authority URI.\<close>

datatype call_credentials = CallCredentials (generator: "string \<Rightarrow> metadata")

text \<open>Modelled from the spec: \<open>composeCall\<close>, the \<^verbatim>\<open>compose\<close> method of the native
  CallCredentials class: the generator of the result runs both generators and concatenates
  their metadata, preserving order.\<close>

definition composeCall :: "call_credentials \<Rightarrow> call_credentials \<Rightarrow> call_credentials" where
  "composeCall k1 k2 = CallCredentials (\<lambda>uri. generator k1 uri @ generator k2 uri)"

text \<open>The call credential that \<^verbatim>\<open>getOauth2Creds\<close> of the interop client creates from
  its generator \<^verbatim>\<open>updateMd\<close>: a single entry \<^verbatim>\<open>authorization: Bearer <token>\<close>.\<close>

definition bearer_credentials :: "string \<Rightarrow> call_credentials" where
  "bearer_credentials token =
     CallCredentials (\<lambda>service_url. md_add Metadata_new ''authorization'' (Text (''Bearer '' @ token)))"

text \<open>Modelled from the spec: a channel credential (the ChannelCredentials class is not
  among the sources, only its test is) is the insecure sentinel, an SSL credential with
  root certificates and an optional key and certificate chain, or a composite.\<close>

datatype channel_credentials =
  Insecure
  | Ssl buffer "(buffer \<times> buffer) option"
  | Composite channel_credentials call_credentials

text \<open>Modelled from the spec: the \<open>isComposable\<close> flag, true for the secure variants, false
  for the insecure sentinel and for a composite.\<close>

fun isComposable :: "channel_credentials \<Rightarrow> bool" where
  "isComposable Insecure = False"
| "isComposable (Ssl root_certs key_and_chain) = True"
| "isComposable (Composite c k) = False"

datatype credentials_error = InvalidArgument

text \<open>Modelled from the spec: \<open>composeChannel\<close> (ChannelCredentials.Create, the
  \<^verbatim>\<open>compose\<close> method of the native ChannelCredentials class). An absent argument is
  \<open>None\<close>. Either argument absent is an invalid-argument error, and so is a channel
  credential that is not composable.\<close>

definition composeChannel ::
  "channel_credentials option \<Rightarrow> call_credentials option \<Rightarrow>
   credentials_error + channel_credentials" where
  "composeChannel c k =
     (case c of
        None \<Rightarrow> Inl InvalidArgument
      | Some channel_credential \<Rightarrow>
          (case k of
             None \<Rightarrow> Inl InvalidArgument
           | Some call_credential \<Rightarrow>
               if isComposable channel_credential
               then Inr (Composite channel_credential call_credential)
               else Inl InvalidArgument))"

text \<open>
  The loop shared by \<^verbatim>\<open>combineChannelCredentials\<close> and \<^verbatim>\<open>combineCallCredentials\<close>:
  \<^verbatim>\<open>for (var i = 1; i < arguments.length; i++) { current = current.compose(arguments[i]); }\<close>.
  The \<^verbatim>\<open>compose\<close> method belongs to the native classes and is an argument here; an
  exception it throws leaves the loop.
\<close>

fun compose_loop :: "('c \<Rightarrow> 'k \<Rightarrow> 'e + 'c) \<Rightarrow> 'c \<Rightarrow> 'k list \<Rightarrow> 'e + 'c" where
  "compose_loop compose current [] = Inr current"
| "compose_loop compose current (k # ks) =
     (case compose current k of
        Inl e \<Rightarrow> Inl e
      | Inr c \<Rightarrow> compose_loop compose c ks)"

text \<open>\<open>credentials\<close> are \<^verbatim>\<open>arguments[1]\<close>, \<^verbatim>\<open>arguments[2]\<close>, and so on.\<close>

definition combineChannelCredentials ::
  "('c \<Rightarrow> 'k \<Rightarrow> 'e + 'c) \<Rightarrow> 'c \<Rightarrow> 'k list \<Rightarrow> 'e + 'c" where
  "combineChannelCredentials compose channel_credential credentials =
     compose_loop compose channel_credential credentials"

text \<open>Called with no argument, \<^verbatim>\<open>combineCallCredentials\<close> returns \<^verbatim>\<open>arguments[0]\<close>,
  which is undefined: \<open>None\<close>.\<close>

definition combineCallCredentials ::
  "('k \<Rightarrow> 'k \<Rightarrow> 'e + 'k) \<Rightarrow> 'k list \<Rightarrow> 'e + 'k option" where
  "combineCallCredentials compose arguments =
     (case arguments of
        [] \<Rightarrow> Inr None
      | current # rest \<Rightarrow>
          (case compose_loop compose current rest of
             Inl e \<Rightarrow> Inl e
           | Inr k \<Rightarrow> Inr (Some k)))"

text \<open>
  The form the spec gives as the correct one, for one call credential or more:
  \<open>composeChannel(c, composeCall(k\<^sub>1, \<dots>, k\<^sub>n))\<close>, where \<open>composeCall(k\<^sub>1, \<dots>, k\<^sub>n)\<close>
  is what \<^verbatim>\<open>combineCallCredentials\<close> computes from \<open>k\<^sub>1, \<dots>, k\<^sub>n\<close>. Both \<^verbatim>\<open>compose\<close>
  methods are arguments.
\<close>

definition composeChannel_of_composeCall ::
  "('c \<Rightarrow> 'k \<Rightarrow> 'e + 'c) \<Rightarrow> ('k \<Rightarrow> 'k \<Rightarrow> 'e + 'k) \<Rightarrow> 'c \<Rightarrow> 'k \<Rightarrow> 'k list \<Rightarrow> 'e + 'c" where
  "composeChannel_of_composeCall channel_compose call_compose c k ks =
     (case compose_loop call_compose k ks of
        Inl e \<Rightarrow> Inl e
      | Inr composed \<Rightarrow> channel_compose c composed)"

text \<open>
  The \<^verbatim>\<open>compose\<close> methods are native. To see which calls of them a function makes, a
  credential can be the term of the calls that built it: a credential that was given, by
  name, or the result of \<^verbatim>\<open>compose\<close> on a credential and a call credential. These
  methods never throw.
\<close>

datatype call_term = GivenCall string | CallCompose call_term call_term

datatype channel_term = GivenChannel string | ChannelCompose channel_term call_term

definition term_channel_compose :: "channel_term \<Rightarrow> call_term \<Rightarrow> js_error + channel_term" where
  "term_channel_compose c k = Inr (ChannelCompose c k)"

definition term_call_compose :: "call_term \<Rightarrow> call_term \<Rightarrow> js_error + call_term" where
  "term_call_compose k1 k2 = Inr (CallCompose k1 k2)"

section \<open>The client surface (client.js)\<close>

text \<open>Modelled from the spec: \<^verbatim>\<open>grpc.status\<close> of the native binding, the enumeration of
  the status codes: \<open>OK\<close>, \<open>CANCELLED\<close>, \<open>DEADLINE_EXCEEDED\<close>, \<open>INTERNAL\<close> and the rest
  of the standard RPC status set.\<close>

datatype status_code =
  OK | CANCELLED | UNKNOWN | INVALID_ARGUMENT | DEADLINE_EXCEEDED | NOT_FOUND
  | ALREADY_EXISTS | PERMISSION_DENIED | UNAUTHENTICATED | RESOURCE_EXHAUSTED
  | FAILED_PRECONDITION | ABORTED | OUT_OF_RANGE | UNIMPLEMENTED | INTERNAL
  | UNAVAILABLE | DATA_LOSS

text \<open>The transport's representation of a metadata collection.\<close>

datatype core_metadata = Core (entries: metadata)

text \<open>Modelled from the spec: \<^verbatim>\<open>Metadata._fromCoreRepresentation\<close> of metadata.js, a pure
  conversion of the entry list.\<close>

definition fromCoreRepresentation :: "core_metadata \<Rightarrow> metadata" where
  "fromCoreRepresentation c = entries c"

text \<open>Modelled from the spec: \<^verbatim>\<open>Metadata._getCoreRepresentation\<close> of metadata.js, a pure
  conversion of the entry list.\<close>

definition getCoreRepresentation :: "metadata \<Rightarrow> core_metadata" where
  "getCoreRepresentation md = Core md"

subsection \<open>Batches\<close>

record message =
  msg_data :: buffer
  grpcWriteFlags :: "nat option"

text \<open>A batch is a JavaScript object indexed by \<^verbatim>\<open>grpc.opType\<close>: one slot for each
  operation, absent until it is set.\<close>

record batch =
  SEND_INITIAL_METADATA :: "core_metadata option"
  SEND_MESSAGE :: "message option"
  SEND_CLOSE_FROM_CLIENT :: bool
  RECV_INITIAL_METADATA :: bool
  RECV_MESSAGE :: bool
  RECV_STATUS_ON_CLIENT :: bool

definition empty_batch :: batch where
  "empty_batch =
     \<lparr>SEND_INITIAL_METADATA = None, SEND_MESSAGE = None, SEND_CLOSE_FROM_CLIENT = False,
      RECV_INITIAL_METADATA = False, RECV_MESSAGE = False, RECV_STATUS_ON_CLIENT = False\<rparr>"

subsection \<open>Writing to a client stream\<close>

text \<open>
  What \<^verbatim>\<open>_write\<close> does with the \<^verbatim>\<open>callback\<close> that \<^verbatim>\<open>stream.Writable\<close> hands it:
  \<open>WriteCallback None\<close> is the call \<^verbatim>\<open>callback()\<close>, \<open>WriteCallback (Some e)\<close> would be
  \<^verbatim>\<open>callback(e)\<close>.
\<close>

datatype write_effect = WriteCallback "js_error option"

text \<open>The function that \<^verbatim>\<open>_write\<close> passes to \<^verbatim>\<open>startBatch\<close>; \<open>err\<close> is its first
  argument.\<close>

definition write_batch_callback :: "js_error option \<Rightarrow> write_effect list" where
  "write_batch_callback err =
     (case err of
        Some e \<Rightarrow> []
      | None \<Rightarrow> [WriteCallback None])"

text \<open>
  \<^verbatim>\<open>_write(chunk, encoding, callback)\<close> of ClientWritableStream and ClientDuplexStream.
  \<open>encoding\<close> is \<open>Some n\<close> when it is a finite number. \<open>startBatch\<close> stands for the
  transport: it gives the error, if any, with which the batch completes. The result is
  the batch submitted and what happened to \<^verbatim>\<open>callback\<close>.
\<close>

definition ClientWritableStream_write ::
  "('a \<Rightarrow> buffer) \<Rightarrow> (batch \<Rightarrow> js_error option) \<Rightarrow> 'a \<Rightarrow> nat option \<Rightarrow>
   batch \<times> write_effect list" where
  "ClientWritableStream_write serialize startBatch chunk encoding =
     (let message = \<lparr>msg_data = serialize chunk, grpcWriteFlags = None\<rparr>;
          message = (case encoding of
                       Some n \<Rightarrow> message\<lparr>grpcWriteFlags := Some n\<rparr>
                     | None \<Rightarrow> message);
          batch = empty_batch\<lparr>SEND_MESSAGE := Some message\<rparr>
      in (batch, write_batch_callback (startBatch batch)))"

subsection \<open>Creating a call\<close>

datatype deadline = Infinity | Timestamp int | Date int

text \<open>The object under \<^verbatim>\<open>options.parent\<close>, with its \<^verbatim>\<open>call\<close> property.\<close>

datatype parent_surface = ParentSurface (parent_call: "nat option")

text \<open>The options map of a request; a property that is not set is \<open>None\<close>.\<close>

record 'cred call_options =
  opt_deadline :: "deadline option"
  opt_host :: "string option"
  opt_parent :: "parent_surface option"
  opt_propagate_flags :: "nat option"
  opt_credentials :: "'cred option"
  opt_flags :: "nat option"

record ('ch, 'cred) call =
  call_channel :: 'ch
  call_method :: string
  call_deadline :: deadline
  call_host :: "string option"
  call_parent :: "nat option"
  call_propagate_flags :: "nat option"
  call_credentials :: "'cred option"

text \<open>Modelled from the spec: \<^verbatim>\<open>new grpc.Call\<close> of the native binding creates a call handle
  with the target method, the deadline, the authority override and the parent call it is
  given, and no per-call credential.\<close>

definition new_Call ::
  "'ch \<Rightarrow> string \<Rightarrow> deadline \<Rightarrow> string option \<Rightarrow> nat option \<Rightarrow> nat option \<Rightarrow>
   ('ch, 'cred) call" where
  "new_Call channel method deadline host parent propagate_flags =
     \<lparr>call_channel = channel, call_method = method, call_deadline = deadline,
      call_host = host, call_parent = parent, call_propagate_flags = propagate_flags,
      call_credentials = None\<rparr>"

text \<open>Modelled from the spec: \<^verbatim>\<open>setCredentials\<close> of the native call overrides the per-call
  credentials.\<close>

definition setCredentials :: "('ch, 'cred) call \<Rightarrow> 'cred \<Rightarrow> ('ch, 'cred) call" where
  "setCredentials c credentials = c\<lparr>call_credentials := Some credentials\<rparr>"

definition getCall ::
  "'ch \<Rightarrow> string \<Rightarrow> 'cred call_options option \<Rightarrow> ('ch, 'cred) call" where
  "getCall channel method options =
     (let (deadline, host, parent, propagate_flags, credentials) =
            (case options of
               None \<Rightarrow> (None, None, None, None, None)
             | Some opts \<Rightarrow>
                 (opt_deadline opts, opt_host opts,
                  (case opt_parent opts of None \<Rightarrow> None | Some p \<Rightarrow> parent_call p),
                  opt_propagate_flags opts, opt_credentials opts));
          deadline = (case deadline of None \<Rightarrow> Infinity | Some d \<Rightarrow> d);
          c = new_Call channel method deadline host parent propagate_flags
      in case credentials of
           Some cr \<Rightarrow> setCredentials c cr
         | None \<Rightarrow> c)"

subsection \<open>Metadata objects\<close>

text \<open>
  A request receives a reference to the caller's Metadata object, or nothing. The store
  holds the entries of every Metadata object; a reference is an index into it.
\<close>

type_synonym store = "metadata list"

type_synonym ref = nat

text \<open>\<^verbatim>\<open>new Metadata()\<close> as an object: a new object with no entry.\<close>

definition new_Metadata :: "store \<Rightarrow> ref \<times> store" where
  "new_Metadata s = (length s, s @ [Metadata_new])"

text \<open>Modelled from the spec: \<^verbatim>\<open>Metadata.clone\<close> of metadata.js returns a deep copy, a new
  object with the same entries. A reference to no Metadata object has no such method.\<close>

definition clone :: "store \<Rightarrow> ref \<Rightarrow> js_error + ref \<times> store" where
  "clone s r =
     (if r < length s then Inr (length s, s @ [s ! r])
      else Inl (TypeError ''metadata.clone is not a function''))"

subsection \<open>The four request shapes\<close>

text \<open>
  What a request has done when it returns: the store, the call it created and the batches
  it submitted, in order.
\<close>

record ('ch, 'cred) started =
  run_store :: store
  run_call :: "('ch, 'cred) call"
  run_batches :: "batch list"

definition makeUnaryRequest ::
  "string \<Rightarrow> ('a \<Rightarrow> buffer) \<Rightarrow> 'ch \<Rightarrow> 'a \<Rightarrow> ref option \<Rightarrow> 'cred call_options option \<Rightarrow>
   store \<Rightarrow> js_error + ('ch, 'cred) started" where
  "makeUnaryRequest method serialize channel argument metadata options s =
     (let c = getCall channel method options in
      case (case metadata of None \<Rightarrow> Inr (new_Metadata s) | Some r \<Rightarrow> clone s r) of
        Inl e \<Rightarrow> Inl e
      | Inr (m, s') \<Rightarrow>
          (let message = \<lparr>msg_data = serialize argument, grpcWriteFlags = None\<rparr>;
               message = (case options of
                            Some opts \<Rightarrow> message\<lparr>grpcWriteFlags := opt_flags opts\<rparr>
                          | None \<Rightarrow> message);
               client_batch = empty_batch
                 \<lparr>SEND_INITIAL_METADATA := Some (getCoreRepresentation (s' ! m)),
                  SEND_MESSAGE := Some message,
                  SEND_CLOSE_FROM_CLIENT := True,
                  RECV_INITIAL_METADATA := True,
                  RECV_MESSAGE := True,
                  RECV_STATUS_ON_CLIENT := True\<rparr>
           in Inr \<lparr>run_store = s', run_call = c, run_batches = [client_batch]\<rparr>))"

definition makeClientStreamRequest ::
  "string \<Rightarrow> 'ch \<Rightarrow> ref option \<Rightarrow> 'cred call_options option \<Rightarrow>
   store \<Rightarrow> js_error + ('ch, 'cred) started" where
  "makeClientStreamRequest method channel metadata options s =
     (let c = getCall channel method options in
      case (case metadata of None \<Rightarrow> Inr (new_Metadata s) | Some r \<Rightarrow> clone s r) of
        Inl e \<Rightarrow> Inl e
      | Inr (m, s') \<Rightarrow>
          (let metadata_batch = empty_batch
                 \<lparr>SEND_INITIAL_METADATA := Some (getCoreRepresentation (s' ! m)),
                  RECV_INITIAL_METADATA := True\<rparr>;
               client_batch = empty_batch
                 \<lparr>RECV_MESSAGE := True,
                  RECV_STATUS_ON_CLIENT := True\<rparr>
           in Inr \<lparr>run_store = s', run_call = c,
                   run_batches = [metadata_batch, client_batch]\<rparr>))"

definition makeServerStreamRequest ::
  "string \<Rightarrow> ('a \<Rightarrow> buffer) \<Rightarrow> 'ch \<Rightarrow> 'a \<Rightarrow> ref option \<Rightarrow> 'cred call_options option \<Rightarrow>
   store \<Rightarrow> js_error + ('ch, 'cred) started" where
  "makeServerStreamRequest method serialize channel argument metadata options s =
     (let c = getCall channel method options in
      case (case metadata of None \<Rightarrow> Inr (new_Metadata s) | Some r \<Rightarrow> clone s r) of
        Inl e \<Rightarrow> Inl e
      | Inr (m, s') \<Rightarrow>
          (let message = \<lparr>msg_data = serialize argument, grpcWriteFlags = None\<rparr>;
               message = (case options of
                            Some opts \<Rightarrow> message\<lparr>grpcWriteFlags := opt_flags opts\<rparr>
                          | None \<Rightarrow> message);
               start_batch = empty_batch
                 \<lparr>SEND_INITIAL_METADATA := Some (getCoreRepresentation (s' ! m)),
                  RECV_INITIAL_METADATA := True,
                  SEND_MESSAGE := Some message,
                  SEND_CLOSE_FROM_CLIENT := True\<rparr>;
               status_batch = empty_batch\<lparr>RECV_STATUS_ON_CLIENT := True\<rparr>
           in Inr \<lparr>run_store = s', run_call = c,
                   run_batches = [start_batch, status_batch]\<rparr>))"

definition makeBidiStreamRequest ::
  "string \<Rightarrow> 'ch \<Rightarrow> ref option \<Rightarrow> 'cred call_options option \<Rightarrow>
   store \<Rightarrow> js_error + ('ch, 'cred) started" where
  "makeBidiStreamRequest method channel metadata options s =
     (let c = getCall channel method options in
      case (case metadata of None \<Rightarrow> Inr (new_Metadata s) | Some r \<Rightarrow> clone s r) of
        Inl e \<Rightarrow> Inl e
      | Inr (m, s') \<Rightarrow>
          (let start_batch = empty_batch
                 \<lparr>SEND_INITIAL_METADATA := Some (getCoreRepresentation (s' ! m)),
                  RECV_INITIAL_METADATA := True\<rparr>;
               status_batch = empty_batch\<lparr>RECV_STATUS_ON_CLIENT := True\<rparr>
           in Inr \<lparr>run_store = s', run_call = c,
                   run_batches = [start_batch, status_batch]\<rparr>))"

subsection \<open>Completion of the batch that receives the response\<close>

text \<open>The status as the transport delivers it, and as the client hands it on. The status
  that replaces it after a failed parse has no \<^verbatim>\<open>metadata\<close> property.\<close>

record core_status =
  cs_code :: status_code
  cs_details :: string
  cs_metadata :: core_metadata

record status =
  st_code :: status_code
  st_details :: string
  st_metadata :: "metadata option"

record 'b batch_response =
  resp_status :: core_status
  resp_read :: 'b
  resp_metadata :: core_metadata

text \<open>A JavaScript \<^verbatim>\<open>Error\<close> object as the client builds it: the message given to the
  constructor, and the properties \<^verbatim>\<open>code\<close> and \<^verbatim>\<open>metadata\<close> where they are set.\<close>

record client_error =
  err_message :: string
  err_code :: "status_code option"
  err_metadata :: "metadata option"

text \<open>What the application observes: a call of the request's \<^verbatim>\<open>callback\<close> with an error,
  or with \<^verbatim>\<open>null\<close> and the variable \<^verbatim>\<open>deserialized\<close> (\<open>None\<close> while it is
  undefined), and the events emitted.\<close>

datatype 'a client_event =
  CallbackError client_error
  | CallbackValue "'a option"
  | EmitStatus status
  | EmitMetadata metadata

text \<open>
  The function that \<^verbatim>\<open>makeUnaryRequest\<close> passes to \<^verbatim>\<open>startBatch\<close>. \<open>err\<close> and
  \<open>response\<close> are its arguments; \<open>deserialize\<close> gives \<open>None\<close> where the JavaScript
  function throws. \<open>response_status\<close> is \<^verbatim>\<open>response.status\<close> after its metadata has
  been converted; \<open>checked\<close> is the first \<^verbatim>\<open>if\<close>, which returns early (\<open>Inl\<close>) or
  leaves the variables \<^verbatim>\<open>status\<close> and \<^verbatim>\<open>deserialized\<close>. The error is built from
  \<^verbatim>\<open>response.status.details\<close>, \<^verbatim>\<open>status.code\<close> and \<^verbatim>\<open>status.metadata\<close>.
\<close>

definition unary_batch_callback ::
  "('b \<Rightarrow> 'a option) \<Rightarrow> client_error option \<Rightarrow> 'b batch_response \<Rightarrow> 'a client_event list" where
  "unary_batch_callback deserialize err response =
     (let response_status =
            \<lparr>st_code = cs_code (resp_status response),
             st_details = cs_details (resp_status response),
             st_metadata = Some (fromCoreRepresentation (cs_metadata (resp_status response)))\<rparr>;
          checked =
            (if st_code response_status = OK then
               (case err of
                  Some e \<Rightarrow> Inl e
                | None \<Rightarrow>
                    (case deserialize (resp_read response) of
                       Some d \<Rightarrow> Inr (response_status, Some d)
                     | None \<Rightarrow>
                         Inr (\<lparr>st_code = INTERNAL,
                               st_details = ''Failed to parse server response'',
                               st_metadata = None\<rparr>, None)))
             else Inr (response_status, None))
      in case checked of
           Inl e \<Rightarrow> [CallbackError e]
         | Inr (status, deserialized) \<Rightarrow>
             (if st_code status \<noteq> OK
              then CallbackError \<lparr>err_message = st_details response_status,
                                  err_code = Some (st_code status),
                                  err_metadata = st_metadata status\<rparr>
              else CallbackValue deserialized)
             # [EmitStatus status,
                EmitMetadata (fromCoreRepresentation (resp_metadata response))])"

text \<open>
  The function that \<^verbatim>\<open>makeClientStreamRequest\<close> passes to \<^verbatim>\<open>startBatch\<close> with its
  \<^verbatim>\<open>client_batch\<close>: the same statements, except that only \<^verbatim>\<open>'status'\<close> is emitted.
\<close>

definition client_stream_batch_callback ::
  "('b \<Rightarrow> 'a option) \<Rightarrow> client_error option \<Rightarrow> 'b batch_response \<Rightarrow> 'a client_event list" where
  "client_stream_batch_callback deserialize err response =
     (let response_status =
            \<lparr>st_code = cs_code (resp_status response),
             st_details = cs_details (resp_status response),
             st_metadata = Some (fromCoreRepresentation (cs_metadata (resp_status response)))\<rparr>;
          checked =
            (if st_code response_status = OK then
               (case err of
                  Some e \<Rightarrow> Inl e
                | None \<Rightarrow>
                    (case deserialize (resp_read response) of
                       Some d \<Rightarrow> Inr (response_status, Some d)
                     | None \<Rightarrow>
                         Inr (\<lparr>st_code = INTERNAL,
                               st_details = ''Failed to parse server response'',
                               st_metadata = None\<rparr>, None)))
             else Inr (response_status, None))
      in case checked of
           Inl e \<Rightarrow> [CallbackError e]
         | Inr (status, deserialized) \<Rightarrow>
             (if st_code status \<noteq> OK
              then CallbackError \<lparr>err_message = st_details response_status,
                                  err_code = Some (st_code status),
                                  err_metadata = st_metadata status\<rparr>
              else CallbackValue deserialized)
             # [EmitStatus status])"

subsection \<open>The client constructor\<close>

datatype method_type = unary | server_stream | client_stream | bidi

text \<open>The attributes of a method in the \<^verbatim>\<open>methods\<close> object.\<close>

record ('s, 'd) method_attrs =
  path :: string
  requestStream :: bool
  responseStream :: bool
  requestSerialize :: 's
  responseDeserialize :: 'd

text \<open>
  A property of \<^verbatim>\<open>Client.prototype\<close>: the function that
  \<^verbatim>\<open>requester_makers[method_type](attrs.path, serialize, deserialize)\<close> returns, given by
  the maker chosen and its arguments, with its properties \<^verbatim>\<open>serialize\<close> and
  \<^verbatim>\<open>deserialize\<close>.
\<close>

record ('s, 'd) client_method =
  cm_maker :: method_type
  cm_path :: string
  cm_maker_serialize :: 's
  cm_maker_deserialize :: 'd
  cm_serialize :: 's
  cm_deserialize :: 'd

text \<open>\<^verbatim>\<open>_.startsWith(name, '$')\<close>.\<close>

definition startsWith :: "string \<Rightarrow> string \<Rightarrow> bool" where
  "startsWith name target = (take (length target) name = target)"

text \<open>
  The function that \<^verbatim>\<open>makeClientConstructor\<close> passes to \<^verbatim>\<open>_.each\<close>, applied to one
  entry of \<^verbatim>\<open>methods\<close>. \<open>requester\<close> is the value it assigns to
  \<^verbatim>\<open>Client.prototype[name]\<close>, and \<open>prototype\<close> is \<^verbatim>\<open>Client.prototype\<close>.
\<close>

definition requester :: "('s, 'd) method_attrs \<Rightarrow> ('s, 'd) client_method" where
  "requester attrs =
     (let method_type =
            (if requestStream attrs
             then (if responseStream attrs then bidi else client_stream)
             else (if responseStream attrs then server_stream else unary));
          serialize = requestSerialize attrs;
          deserialize = responseDeserialize attrs
      in \<lparr>cm_maker = method_type, cm_path = path attrs,
          cm_maker_serialize = serialize, cm_maker_deserialize = deserialize,
          cm_serialize = serialize, cm_deserialize = deserialize\<rparr>)"

definition define_method ::
  "(string \<rightharpoonup> ('s, 'd) client_method) \<Rightarrow> string \<Rightarrow> ('s, 'd) method_attrs \<Rightarrow>
   js_error + (string \<rightharpoonup> ('s, 'd) client_method)" where
  "define_method prototype name attrs =
     (if startsWith name ''$'' then Inl (Error ''Method names cannot start with $'')
      else Inr (prototype(name \<mapsto> requester attrs)))"

text \<open>\<^verbatim>\<open>_.each\<close> over the entries of \<^verbatim>\<open>methods\<close>, in the order of the object's keys; an
  exception leaves the loop.\<close>

fun each_method ::
  "(string \<rightharpoonup> ('s, 'd) client_method) \<Rightarrow> (string \<times> ('s, 'd) method_attrs) list \<Rightarrow>
   js_error + (string \<rightharpoonup> ('s, 'd) client_method)" where
  "each_method prototype [] = Inr prototype"
| "each_method prototype ((name, attrs) # methods) =
     (case define_method prototype name attrs of
        Inl e \<Rightarrow> Inl e
      | Inr prototype' \<Rightarrow> each_method prototype' methods)"

text \<open>\<^verbatim>\<open>makeClientConstructor\<close> returns the constructor \<^verbatim>\<open>Client\<close>, here the prototype
  that its clients share, or throws.\<close>

definition makeClientConstructor ::
  "(string \<times> ('s, 'd) method_attrs) list \<Rightarrow> string \<Rightarrow>
   js_error + (string \<rightharpoonup> ('s, 'd) client_method)" where
  "makeClientConstructor methods serviceName = each_method Map.empty methods"

subsection \<open>The channel of a client\<close>

text \<open>The value of an option: a number that is a 32-bit integer, a string, or anything
  else.\<close>

datatype js_value = JInt32 int | JString string | JOther

datatype grpc_arg = GRPC_ARG_INTEGER int | GRPC_ARG_STRING string

record 'c channel =
  ch_host :: string
  ch_creds :: 'c
  ch_args :: "(string \<times> grpc_arg) list"

text \<open>The type tests on a value in \<^verbatim>\<open>Channel::New\<close>: \<^verbatim>\<open>IsInt32\<close> gives an integer
  argument, \<^verbatim>\<open>IsString\<close> a string argument, and anything else is refused.\<close>

definition arg_of :: "js_value \<Rightarrow> grpc_arg option" where
  "arg_of current_value =
     (case current_value of
        JInt32 i \<Rightarrow> Some (GRPC_ARG_INTEGER i)
      | JString str \<Rightarrow> Some (GRPC_ARG_STRING str)
      | JOther \<Rightarrow> None)"

text \<open>The loop of \<^verbatim>\<open>Channel::New\<close> over the keys of the options object.\<close>

fun channel_args :: "(string \<times> js_value) list \<Rightarrow> js_error + (string \<times> grpc_arg) list" where
  "channel_args [] = Inr []"
| "channel_args ((current_key, current_value) # rest) =
     (case arg_of current_value of
        None \<Rightarrow> Inl (TypeError ''Arg values must be strings'')
      | Some arg \<Rightarrow>
          (case channel_args rest of
             Inl e \<Rightarrow> Inl e
           | Inr args \<Rightarrow> Inr ((current_key, arg) # args)))"

text \<open>\<^verbatim>\<open>Channel::New\<close> called as a constructor with a string, a ChannelCredentials object
  and an options object, as \<^verbatim>\<open>Client\<close> calls it.\<close>

definition Channel_New ::
  "string \<Rightarrow> 'c \<Rightarrow> (string \<times> js_value) list \<Rightarrow> js_error + 'c channel" where
  "Channel_New host creds args_hash =
     (case channel_args args_hash of
        Inl e \<Rightarrow> Inl e
      | Inr args \<Rightarrow> Inr \<lparr>ch_host = host, ch_creds = creds, ch_args = args\<rparr>)"

text \<open>
  The constructor \<^verbatim>\<open>Client(address, credentials, options)\<close>; \<open>version\<close> is the version
  in package.json. The result is \<^verbatim>\<open>this.$channel\<close>. Assigning to a property of an object
  replaces the value of a key that is there and adds a key that is not.
\<close>

definition Client ::
  "string \<Rightarrow> string \<Rightarrow> 'c \<Rightarrow> (string \<times> js_value) list option \<Rightarrow> js_error + 'c channel" where
  "Client version address credentials options =
     (let options = (case options of None \<Rightarrow> [] | Some given \<Rightarrow> given);
          options = AList.update ''grpc.primary_user_agent''
                      (JString (''grpc-node/'' @ version)) options
      in Channel_New address credentials options)"

section \<open>Properties of the test service\<close>

lemma md_get_single: "md_get [(k, v)] k = [v]"
  by (simp add: md_get_def same_key_def)

lemma md_get_set: "md_get (md_set md k v) k = [v]"
  by (induction md) (auto simp: md_get_def md_set_def same_key_def)

lemma aggregate_all_payloads:
  "map req_payload vs = map Some ps \<Longrightarrow>
   aggregate_all a vs = Inr (a + sum_list (map (\<lambda>p. length (p_body p)) ps))"
proof (induction vs arbitrary: a ps)
  case Nil
  then show ?case by simp
next
  case (Cons v vs)
  then obtain p ps' where
    "ps = p # ps'" "req_payload v = Some p" "map req_payload vs = map Some ps'"
    by (cases ps) auto
  with Cons.IH [of ps' "a + length (p_body p)"] show ?case
    by (simp add: on_data_aggregate_def)
qed

text \<open>
  C7. When the stream of a \<open>streamingInputCall\<close> delivers messages that carry the payloads
  \<open>ps\<close>, in this order, and then ends, the handler calls back once, with
  \<open>aggregated_payload_size\<close> the sum of the byte lengths of the payload bodies; for no
  message at all the sum is 0.
\<close>

theorem streamingInputCall_aggregated_payload_size:
  "map req_payload vs = map Some ps \<Longrightarrow>
   handleStreamingInput call_metadata vs =
     (echoHeader call_metadata @
        [Callback (AggregateResponse (sum_list (map (\<lambda>p. length (p_body p)) ps)))
           (getEchoTrailer call_metadata)],
      None)"
  by (simp add: handleStreamingInput_def aggregate_all_payloads)

text \<open>The payload sizes of the interop case \<open>client_streaming\<close>, and the empty stream.\<close>

theorem streamingInputCall_aggregated_payload_size_witness:
  "handleStreamingInput []
     (map (\<lambda>n. \<lparr>response_type = COMPRESSABLE, response_size = 0, response_parameters = [],
                 req_payload = Some \<lparr>p_type = None, p_body = replicate n 0\<rparr>\<rparr>)
        [27182, 8, 1828, 45904]) =
   ([Callback (AggregateResponse 74922) []], None)
   \<and> handleStreamingInput [] [] = ([Callback (AggregateResponse 0) []], None)"
  using streamingInputCall_aggregated_payload_size
    [of "map (\<lambda>n. \<lparr>response_type = COMPRESSABLE, response_size = 0, response_parameters = [],
                     req_payload = Some \<lparr>p_type = None, p_body = replicate n 0\<rparr>\<rparr>)
           [27182, 8, 1828, 45904]"
        "map (\<lambda>n. \<lparr>p_type = None, p_body = replicate n 0\<rparr>) [27182, 8, 1828, 45904]" "[]"]
    streamingInputCall_aggregated_payload_size [of "[]" "[]" "[]"]
  by (simp add: echoHeader_def getEchoTrailer_def md_get_def Metadata_new_def)

subsection \<open>The echo of metadata\<close>

lemma echoHeader_cases:
  "echoHeader md =
     (case md_get md ECHO_INITIAL_KEY of
        [] \<Rightarrow> []
      | v # vs \<Rightarrow> [SendMetadata [(ECHO_INITIAL_KEY, v)]])"
  by (simp add: echoHeader_def md_set_def Metadata_new_def split: list.splits)

lemma getEchoTrailer_cases:
  "getEchoTrailer md =
     (case md_get md ECHO_TRAILING_KEY of
        [] \<Rightarrow> []
      | w # ws \<Rightarrow> [(ECHO_TRAILING_KEY, w)])"
  by (simp add: getEchoTrailer_def md_set_def Metadata_new_def split: list.splits)

text \<open>The writes of a handler are writes: no initial metadata and no trailer.\<close>

lemma write_payloads_plain:
  "a \<in> set (fst (write_payloads k t ps)) \<Longrightarrow> \<not> is_SendMetadata a \<and> trailer_of a = None"
  by (induction ps arbitrary: a) (auto split: sum.splits prod.splits)

lemma duplex_writes_plain:
  "a \<in> set (fst (duplex_writes k coins vs)) \<Longrightarrow> \<not> is_SendMetadata a \<and> trailer_of a = None"
proof (induction k coins vs arbitrary: a rule: duplex_writes.induct)
  case (1 k coins)
  then show ?case by simp
next
  case (2 k coins v vs)
  obtain writes thrown where w:
    "write_payloads k
       (pick_payload_type (case coins of [] \<Rightarrow> False | c # _ \<Rightarrow> c) (response_type v))
       (response_parameters v) = (writes, thrown)"
    by (cases "write_payloads k
       (pick_payload_type (case coins of [] \<Rightarrow> False | c # _ \<Rightarrow> c) (response_type v))
       (response_parameters v)")
  have plain: "\<And>b. b \<in> set writes \<Longrightarrow> \<not> is_SendMetadata b \<and> trailer_of b = None"
    using write_payloads_plain
      [of _ k "pick_payload_type (case coins of [] \<Rightarrow> False | c # _ \<Rightarrow> c) (response_type v)"
        "response_parameters v"]
    by (simp add: w)
  show ?case
  proof (cases thrown)
    case (Some e)
    with "2.prems" w plain show ?thesis by simp
  next
    case None
    obtain later thrown' where d: "duplex_writes k (tl coins) vs = (later, thrown')"
      by (cases "duplex_writes k (tl coins) vs")
    from "2.IH" [OF w [symmetric] None] d
    have "\<And>b. b \<in> set later \<Longrightarrow> \<not> is_SendMetadata b \<and> trailer_of b = None"
      by simp
    with "2.prems" w None d plain show ?thesis by auto
  qed
qed

text \<open>When every size can be allocated, and every message has a payload, nothing throws.\<close>

lemma write_payloads_returns:
  "\<forall>p \<in> set ps. 0 \<le> rp_size p \<and> rp_size p \<le> k \<Longrightarrow> snd (write_payloads k t ps) = None"
  by (induction ps) (auto simp: zeroBuffer_def split: prod.splits)

lemma duplex_writes_returns:
  "\<forall>v \<in> set vs. \<forall>p \<in> set (response_parameters v). 0 \<le> rp_size p \<and> rp_size p \<le> k \<Longrightarrow>
   snd (duplex_writes k coins vs) = None"
proof (induction vs arbitrary: coins)
  case Nil
  then show ?case by simp
next
  case (Cons v vs)
  then have "snd (write_payloads k
       (pick_payload_type (case coins of [] \<Rightarrow> False | c # _ \<Rightarrow> c) (response_type v))
       (response_parameters v)) = None"
    by (intro write_payloads_returns) simp
  moreover from Cons have "snd (duplex_writes k (tl coins) vs) = None" by simp
  ultimately show ?case by (auto split: prod.splits option.splits)
qed

lemma aggregate_all_returns:
  "\<forall>v \<in> set vs. req_payload v \<noteq> None \<Longrightarrow> \<exists>n. aggregate_all a vs = Inr n"
  by (induction vs arbitrary: a) (auto simp: on_data_aggregate_def)

text \<open>
  Every handler but \<open>handleHalfDuplex\<close> echoes the header first and does not send initial
  metadata again; when it returns, it has handed the trailer over last.
\<close>

lemma TestService_shape:
  assumes "inbound_call \<noteq> halfDuplexCall"
  shows "\<exists>body. fst (TestService k coins md inbound_call) = echoHeader md @ body
           \<and> (\<forall>a \<in> set body. \<not> is_SendMetadata a)
           \<and> (snd (TestService k coins md inbound_call) = None \<longrightarrow>
                (\<exists>writes last. body = writes @ [last]
                   \<and> trailer_of last = Some (getEchoTrailer md)
                   \<and> (\<forall>a \<in> set writes. trailer_of a = None)))"
proof (cases inbound_call)
  case emptyCall
  then show ?thesis by (simp add: TestService_def handleEmpty_def)
next
  case (unaryCall req)
  then show ?thesis
    by (simp add: TestService_def handleUnary_def Let_def split: sum.splits)
next
  case (streamingOutputCall req)
  obtain writes thrown where w:
    "write_payloads k
       (pick_payload_type (case coins of [] \<Rightarrow> False | c # _ \<Rightarrow> c) (response_type req))
       (response_parameters req) = (writes, thrown)"
    by (cases "write_payloads k
       (pick_payload_type (case coins of [] \<Rightarrow> False | c # _ \<Rightarrow> c) (response_type req))
       (response_parameters req)")
  have plain: "\<forall>a \<in> set writes. \<not> is_SendMetadata a \<and> trailer_of a = None"
    using write_payloads_plain
      [of _ k "pick_payload_type (case coins of [] \<Rightarrow> False | c # _ \<Rightarrow> c) (response_type req)"
        "response_parameters req"]
    by (simp add: w)
  show ?thesis
  proof (cases thrown)
    case (Some e)
    with streamingOutputCall w plain show ?thesis
      by (simp add: TestService_def handleStreamingOutput_def Let_def)
  next
    case None
    with streamingOutputCall w have
      "TestService k coins md inbound_call =
         (echoHeader md @ (writes @ [End (getEchoTrailer md)]), None)"
      by (simp add: TestService_def handleStreamingOutput_def Let_def)
    with plain show ?thesis by (intro exI [of _ "writes @ [End (getEchoTrailer md)]"]) auto
  qed
next
  case (streamingInputCall vs)
  then show ?thesis
    by (simp add: TestService_def handleStreamingInput_def split: sum.splits)
next
  case (fullDuplexCall vs)
  obtain writes thrown where w: "duplex_writes k coins vs = (writes, thrown)"
    by (cases "duplex_writes k coins vs")
  have plain: "\<forall>a \<in> set writes. \<not> is_SendMetadata a \<and> trailer_of a = None"
    using duplex_writes_plain [of _ k coins vs] by (simp add: w)
  show ?thesis
  proof (cases thrown)
    case (Some e)
    with fullDuplexCall w plain show ?thesis
      by (simp add: TestService_def handleFullDuplex_def)
  next
    case None
    with fullDuplexCall w have
      "TestService k coins md inbound_call =
         (echoHeader md @ (writes @ [End (getEchoTrailer md)]), None)"
      by (simp add: TestService_def handleFullDuplex_def)
    with plain show ?thesis by (intro exI [of _ "writes @ [End (getEchoTrailer md)]"]) auto
  qed
next
  case halfDuplexCall
  with assms show ?thesis by simp
qed

lemma TestService_returns:
  "snd (TestService k coins md emptyCall) = None
   \<and> (0 \<le> response_size req \<and> response_size req \<le> k \<longrightarrow>
        snd (TestService k coins md (unaryCall req)) = None)
   \<and> ((\<forall>p \<in> set (response_parameters req). 0 \<le> rp_size p \<and> rp_size p \<le> k) \<longrightarrow>
        snd (TestService k coins md (streamingOutputCall req)) = None)
   \<and> ((\<forall>v \<in> set vs. req_payload v \<noteq> None) \<longrightarrow>
        snd (TestService k coins md (streamingInputCall vs)) = None)
   \<and> ((\<forall>v \<in> set vs. \<forall>p \<in> set (response_parameters v). 0 \<le> rp_size p \<and> rp_size p \<le> k) \<longrightarrow>
        snd (TestService k coins md (fullDuplexCall vs)) = None)"
proof (intro conjI impI)
  show "snd (TestService k coins md emptyCall) = None"
    by (simp add: TestService_def handleEmpty_def)
next
  assume "0 \<le> response_size req \<and> response_size req \<le> k"
  then show "snd (TestService k coins md (unaryCall req)) = None"
    by (simp add: TestService_def handleUnary_def zeroBuffer_def Let_def)
next
  assume sizes: "\<forall>p \<in> set (response_parameters req). 0 \<le> rp_size p \<and> rp_size p \<le> k"
  have "snd (write_payloads k
       (pick_payload_type (case coins of [] \<Rightarrow> False | c # _ \<Rightarrow> c) (response_type req))
       (response_parameters req)) = None"
    by (rule write_payloads_returns [OF sizes])
  then show "snd (TestService k coins md (streamingOutputCall req)) = None"
    by (cases "write_payloads k
       (pick_payload_type (case coins of [] \<Rightarrow> False | c # _ \<Rightarrow> c) (response_type req))
       (response_parameters req)")
      (simp add: TestService_def handleStreamingOutput_def Let_def)
next
  assume "\<forall>v \<in> set vs. req_payload v \<noteq> None"
  from aggregate_all_returns [OF this, of 0]
  show "snd (TestService k coins md (streamingInputCall vs)) = None"
    by (auto simp: TestService_def handleStreamingInput_def)
next
  assume "\<forall>v \<in> set vs. \<forall>p \<in> set (response_parameters v). 0 \<le> rp_size p \<and> rp_size p \<le> k"
  from duplex_writes_returns [OF this, of coins]
  show "snd (TestService k coins md (fullDuplexCall vs)) = None"
    by (cases "duplex_writes k coins vs") (simp add: TestService_def handleFullDuplex_def)
qed

text \<open>
  A \<open>halfDuplexCall\<close> that carries both echo keys: the handler throws, and the server
  sends no initial metadata and hands over no trailer.
\<close>

theorem halfDuplexCall_echoes_nothing:
  "TestService 1073741823 []
     [(''x-grpc-test-echo-initial'', Text ''test_initial_metadata_value''),
      (''x-grpc-test-echo-trailing-bin'', Binary [0xAB, 0xAB, 0xAB])] halfDuplexCall
   = ([], Some (Error ''HalfDuplexCall not yet implemented''))
   \<and> md_get [(''x-grpc-test-echo-initial'', Text ''test_initial_metadata_value''),
             (''x-grpc-test-echo-trailing-bin'', Binary [0xAB, 0xAB, 0xAB])] ECHO_INITIAL_KEY
     = [Text ''test_initial_metadata_value'']
   \<and> md_get [(''x-grpc-test-echo-initial'', Text ''test_initial_metadata_value''),
             (''x-grpc-test-echo-trailing-bin'', Binary [0xAB, 0xAB, 0xAB])] ECHO_TRAILING_KEY
     = [Binary [0xAB, 0xAB, 0xAB]]"
  by (simp add: TestService_def handleHalfDuplex_def md_get_def same_key_def lower_char_def
      ECHO_INITIAL_KEY_def ECHO_TRAILING_KEY_def)

text \<open>
  C8, as the code has it. For every inbound call to a method other than \<open>halfDuplexCall\<close>,
  with any metadata \<open>md\<close>, whether the handler returns or throws later: if \<open>md\<close> has a
  value under \<open>x-grpc-test-echo-initial\<close>, the first thing the server does is to send
  initial metadata that holds this key alone, with the (first) value of the request, and
  it sends no other initial metadata; if \<open>md\<close> has no such value, it sends no initial
  metadata at all. When the handler returns, the last thing it has done is to hand over
  the trailing metadata, and nothing before carries a trailer: the key
  \<open>x-grpc-test-echo-trailing-bin\<close> alone with the (first) value of the request, or no
  entry when the request has no value under that key. The handler of \<open>emptyCall\<close>
  always returns; the others return when every buffer size asked for is between 0 and the
  greatest length of a buffer and every message streamed in has a payload.
  \<open>halfDuplexCall\<close> throws at once and nothing is echoed.
\<close>

theorem TestService_echoes_metadata:
  "(inbound_call \<noteq> halfDuplexCall \<longrightarrow>
      (case md_get md ECHO_INITIAL_KEY of
         [] \<Rightarrow> filter is_SendMetadata (fst (TestService k coins md inbound_call)) = []
       | v # vs' \<Rightarrow>
           (\<exists>rest. fst (TestService k coins md inbound_call) =
                      SendMetadata [(ECHO_INITIAL_KEY, v)] # rest
              \<and> md_get [(ECHO_INITIAL_KEY, v)] ECHO_INITIAL_KEY = [v]
              \<and> filter is_SendMetadata rest = []))
      \<and> (snd (TestService k coins md inbound_call) = None \<longrightarrow>
           (\<exists>before last. fst (TestService k coins md inbound_call) = before @ [last]
              \<and> (\<forall>a \<in> set before. trailer_of a = None)
              \<and> trailer_of last =
                  Some (case md_get md ECHO_TRAILING_KEY of
                          [] \<Rightarrow> []
                        | w # ws \<Rightarrow> [(ECHO_TRAILING_KEY, w)])
              \<and> (\<forall>w. md_get [(ECHO_TRAILING_KEY, w)] ECHO_TRAILING_KEY = [w]))))
   \<and> snd (TestService k coins md emptyCall) = None
   \<and> (0 \<le> response_size req \<and> response_size req \<le> k \<longrightarrow>
        snd (TestService k coins md (unaryCall req)) = None)
   \<and> ((\<forall>p \<in> set (response_parameters req). 0 \<le> rp_size p \<and> rp_size p \<le> k) \<longrightarrow>
        snd (TestService k coins md (streamingOutputCall req)) = None)
   \<and> ((\<forall>v \<in> set vs. req_payload v \<noteq> None) \<longrightarrow>
        snd (TestService k coins md (streamingInputCall vs)) = None)
   \<and> ((\<forall>v \<in> set vs. \<forall>p \<in> set (response_parameters v). 0 \<le> rp_size p \<and> rp_size p \<le> k) \<longrightarrow>
        snd (TestService k coins md (fullDuplexCall vs)) = None)
   \<and> TestService k coins md halfDuplexCall =
       ([], Some (Error ''HalfDuplexCall not yet implemented''))"
proof -
  have echo: "inbound_call \<noteq> halfDuplexCall \<longrightarrow>
      (case md_get md ECHO_INITIAL_KEY of
         [] \<Rightarrow> filter is_SendMetadata (fst (TestService k coins md inbound_call)) = []
       | v # vs' \<Rightarrow>
           (\<exists>rest. fst (TestService k coins md inbound_call) =
                      SendMetadata [(ECHO_INITIAL_KEY, v)] # rest
              \<and> md_get [(ECHO_INITIAL_KEY, v)] ECHO_INITIAL_KEY = [v]
              \<and> filter is_SendMetadata rest = []))
      \<and> (snd (TestService k coins md inbound_call) = None \<longrightarrow>
           (\<exists>before last. fst (TestService k coins md inbound_call) = before @ [last]
              \<and> (\<forall>a \<in> set before. trailer_of a = None)
              \<and> trailer_of last =
                  Some (case md_get md ECHO_TRAILING_KEY of
                          [] \<Rightarrow> []
                        | w # ws \<Rightarrow> [(ECHO_TRAILING_KEY, w)])
              \<and> (\<forall>w. md_get [(ECHO_TRAILING_KEY, w)] ECHO_TRAILING_KEY = [w])))"
  proof (intro impI conjI)
    assume served: "inbound_call \<noteq> halfDuplexCall"
    from TestService_shape [OF served, of k coins md] obtain body where shape:
      "fst (TestService k coins md inbound_call) = echoHeader md @ body
       \<and> (\<forall>a \<in> set body. \<not> is_SendMetadata a)
       \<and> (snd (TestService k coins md inbound_call) = None \<longrightarrow>
            (\<exists>writes last. body = writes @ [last]
               \<and> trailer_of last = Some (getEchoTrailer md)
               \<and> (\<forall>a \<in> set writes. trailer_of a = None)))" ..
    from shape have acts: "fst (TestService k coins md inbound_call) = echoHeader md @ body"
      by (rule conjunct1)
    from shape have body: "\<forall>a \<in> set body. \<not> is_SendMetadata a"
      by (rule conjunct2 [THEN conjunct1])
    from shape have returned: "snd (TestService k coins md inbound_call) = None \<longrightarrow>
                (\<exists>writes last. body = writes @ [last]
                   \<and> trailer_of last = Some (getEchoTrailer md)
                   \<and> (\<forall>a \<in> set writes. trailer_of a = None))"
      by (rule conjunct2 [THEN conjunct2])
    have no_md: "filter is_SendMetadata body = []"
      using body by (simp add: filter_empty_conv)
    show "case md_get md ECHO_INITIAL_KEY of
         [] \<Rightarrow> filter is_SendMetadata (fst (TestService k coins md inbound_call)) = []
       | v # vs' \<Rightarrow>
           (\<exists>rest. fst (TestService k coins md inbound_call) =
                      SendMetadata [(ECHO_INITIAL_KEY, v)] # rest
              \<and> md_get [(ECHO_INITIAL_KEY, v)] ECHO_INITIAL_KEY = [v]
              \<and> filter is_SendMetadata rest = [])"
      using no_md by (simp add: acts echoHeader_cases md_get_single split: list.splits)
    assume "snd (TestService k coins md inbound_call) = None"
    with returned obtain writes last where
      split: "body = writes @ [last]" and
      last: "trailer_of last = Some (getEchoTrailer md)" and
      writes: "\<forall>a \<in> set writes. trailer_of a = None"
      by blast
    have header: "\<forall>a \<in> set (echoHeader md). trailer_of a = None"
      by (auto simp: echoHeader_cases split: list.splits)
    show "\<exists>before last. fst (TestService k coins md inbound_call) = before @ [last]
              \<and> (\<forall>a \<in> set before. trailer_of a = None)
              \<and> trailer_of last =
                  Some (case md_get md ECHO_TRAILING_KEY of
                          [] \<Rightarrow> []
                        | w # ws \<Rightarrow> [(ECHO_TRAILING_KEY, w)])
              \<and> (\<forall>w. md_get [(ECHO_TRAILING_KEY, w)] ECHO_TRAILING_KEY = [w])"
    proof (intro exI conjI)
      show "fst (TestService k coins md inbound_call) = (echoHeader md @ writes) @ [last]"
        by (simp add: acts split)
      show "\<forall>a \<in> set (echoHeader md @ writes). trailer_of a = None"
        using header writes by auto
      show "trailer_of last =
              Some (case md_get md ECHO_TRAILING_KEY of
                      [] \<Rightarrow> []
                    | w # ws \<Rightarrow> [(ECHO_TRAILING_KEY, w)])"
        by (simp add: last getEchoTrailer_cases)
      show "\<forall>w. md_get [(ECHO_TRAILING_KEY, w)] ECHO_TRAILING_KEY = [w]"
        by (simp add: md_get_single)
    qed
  qed
  have half: "TestService k coins md halfDuplexCall =
       ([], Some (Error ''HalfDuplexCall not yet implemented''))"
    by (simp add: TestService_def handleHalfDuplex_def)
  from echo TestService_returns [of k coins md req vs] half show ?thesis
    by (intro conjI) (elim conjE, assumption)+
qed

text \<open>The metadata of the interop case \<open>custom_metadata\<close>, on a \<open>unaryCall\<close> for two bytes.\<close>

lemma customMetadata_unaryCall:
  "TestService 1073741823 []
     [(''x-grpc-test-echo-initial'', Text ''test_initial_metadata_value''),
      (''x-grpc-test-echo-trailing-bin'', Binary [0xAB, 0xAB, 0xAB])]
     (unaryCall \<lparr>response_type = COMPRESSABLE, response_size = 2, response_parameters = [],
                 req_payload = None\<rparr>) =
   ([SendMetadata [(''x-grpc-test-echo-initial'', Text ''test_initial_metadata_value'')],
     Callback (PayloadResponse \<lparr>p_type = Some COMPRESSABLE, p_body = replicate 2 0\<rparr>)
       [(''x-grpc-test-echo-trailing-bin'', Binary [0xAB, 0xAB, 0xAB])]],
    None)"
  by (simp add: TestService_def handleUnary_def zeroBuffer_def pick_payload_type_def
      echoHeader_def getEchoTrailer_def md_get_def md_set_def Metadata_new_def same_key_def
      lower_char_def ECHO_INITIAL_KEY_def ECHO_TRAILING_KEY_def)

theorem TestService_echoes_metadata_witness:
  "TestService 1073741823 []
     [(''x-grpc-test-echo-initial'', Text ''test_initial_metadata_value''),
      (''x-grpc-test-echo-trailing-bin'', Binary [0xAB, 0xAB, 0xAB])]
     (unaryCall \<lparr>response_type = COMPRESSABLE, response_size = 2, response_parameters = [],
                 req_payload = None\<rparr>) =
   ([SendMetadata [(''x-grpc-test-echo-initial'', Text ''test_initial_metadata_value'')],
     Callback (PayloadResponse \<lparr>p_type = Some COMPRESSABLE, p_body = replicate 2 0\<rparr>)
       [(''x-grpc-test-echo-trailing-bin'', Binary [0xAB, 0xAB, 0xAB])]],
    None)
   \<and> (\<exists>rest.
         [SendMetadata [(''x-grpc-test-echo-initial'', Text ''test_initial_metadata_value'')],
          Callback (PayloadResponse \<lparr>p_type = Some COMPRESSABLE, p_body = replicate 2 0\<rparr>)
            [(''x-grpc-test-echo-trailing-bin'', Binary [0xAB, 0xAB, 0xAB])]]
         = SendMetadata [(ECHO_INITIAL_KEY, Text ''test_initial_metadata_value'')] # rest
         \<and> filter is_SendMetadata rest = [])
   \<and> (\<exists>before last.
         [SendMetadata [(''x-grpc-test-echo-initial'', Text ''test_initial_metadata_value'')],
          Callback (PayloadResponse \<lparr>p_type = Some COMPRESSABLE, p_body = replicate 2 0\<rparr>)
            [(''x-grpc-test-echo-trailing-bin'', Binary [0xAB, 0xAB, 0xAB])]]
         = before @ [last]
         \<and> trailer_of last = Some [(ECHO_TRAILING_KEY, Binary [0xAB, 0xAB, 0xAB])])"
proof -
  have initial:
    "md_get [(''x-grpc-test-echo-initial'', Text ''test_initial_metadata_value''),
             (''x-grpc-test-echo-trailing-bin'', Binary [0xAB, 0xAB, 0xAB])] ECHO_INITIAL_KEY
     = [Text ''test_initial_metadata_value'']"
    by (simp add: md_get_def same_key_def lower_char_def ECHO_INITIAL_KEY_def)
  have trailing:
    "md_get [(''x-grpc-test-echo-initial'', Text ''test_initial_metadata_value''),
             (''x-grpc-test-echo-trailing-bin'', Binary [0xAB, 0xAB, 0xAB])] ECHO_TRAILING_KEY
     = [Binary [0xAB, 0xAB, 0xAB]]"
    by (simp add: md_get_def same_key_def lower_char_def ECHO_TRAILING_KEY_def)
  have served:
    "unaryCall \<lparr>response_type = COMPRESSABLE, response_size = 2, response_parameters = [],
                req_payload = None\<rparr> \<noteq> halfDuplexCall"
    by simp
  note echo = TestService_echoes_metadata
    [where k = 1073741823 and coins = "[]"
       and md = "[(''x-grpc-test-echo-initial'', Text ''test_initial_metadata_value''),
                  (''x-grpc-test-echo-trailing-bin'', Binary [0xAB, 0xAB, 0xAB])]"
       and inbound_call =
         "unaryCall \<lparr>response_type = COMPRESSABLE, response_size = 2,
                     response_parameters = [], req_payload = None\<rparr>",
     THEN conjunct1, THEN mp, OF served]
  have first: "\<exists>rest.
         [SendMetadata [(''x-grpc-test-echo-initial'', Text ''test_initial_metadata_value'')],
          Callback (PayloadResponse \<lparr>p_type = Some COMPRESSABLE, p_body = replicate 2 0\<rparr>)
            [(''x-grpc-test-echo-trailing-bin'', Binary [0xAB, 0xAB, 0xAB])]]
         = SendMetadata [(ECHO_INITIAL_KEY, Text ''test_initial_metadata_value'')] # rest
         \<and> filter is_SendMetadata rest = []"
    using echo [THEN conjunct1]
    unfolding initial list.case customMetadata_unaryCall fst_conv
    by (elim exE conjE, intro exI conjI) assumption+
  have last: "\<exists>before last.
         [SendMetadata [(''x-grpc-test-echo-initial'', Text ''test_initial_metadata_value'')],
          Callback (PayloadResponse \<lparr>p_type = Some COMPRESSABLE, p_body = replicate 2 0\<rparr>)
            [(''x-grpc-test-echo-trailing-bin'', Binary [0xAB, 0xAB, 0xAB])]]
         = before @ [last]
         \<and> trailer_of last = Some [(ECHO_TRAILING_KEY, Binary [0xAB, 0xAB, 0xAB])]"
    using echo [THEN conjunct2, unfolded trailing list.case customMetadata_unaryCall
        fst_conv snd_conv, THEN mp, OF refl]
    by (elim exE conjE, intro exI conjI) assumption+
  from customMetadata_unaryCall first last show ?thesis by (intro conjI)
qed

section \<open>Properties of the credentials\<close>

text \<open>
  C2. Composing the insecure channel credential with any call credential, present or
  absent, is an invalid-argument error; composing with the channel credential absent, or
  with the call credential absent, is an invalid-argument error; and whenever
  \<open>composeChannel\<close> succeeds the credential that it returns is not composable.
\<close>

theorem composeChannel_rules:
  "composeChannel (Some Insecure) k = Inl InvalidArgument
   \<and> composeChannel None k = Inl InvalidArgument
   \<and> composeChannel c None = Inl InvalidArgument
   \<and> (composeChannel c k = Inr composite \<longrightarrow> \<not> isComposable composite)"
  by (auto simp: composeChannel_def split: option.splits if_splits)

text \<open>An SSL credential composed with a bearer token, and the insecure credential.\<close>

theorem composeChannel_rules_witness:
  "composeChannel (Some (Ssl [1, 2, 3] None)) (Some (bearer_credentials ''token'')) =
     Inr (Composite (Ssl [1, 2, 3] None) (bearer_credentials ''token''))
   \<and> \<not> isComposable (Composite (Ssl [1, 2, 3] None) (bearer_credentials ''token''))
   \<and> composeChannel (Some Insecure) (Some (bearer_credentials ''token'')) = Inl InvalidArgument"
  using composeChannel_rules [of "Some (bearer_credentials ''token'')" "Some (Ssl [1, 2, 3] None)"
      "Composite (Ssl [1, 2, 3] None) (bearer_credentials ''token'')"]
  by (simp add: composeChannel_def)

lemma compose_loop_snoc:
  "compose_loop compose c (ks @ [k]) =
     (case compose_loop compose c ks of Inl e \<Rightarrow> Inl e | Inr c' \<Rightarrow> compose c' k)"
  by (induction ks arbitrary: c) (auto split: sum.splits)

text \<open>
  The calls of \<^verbatim>\<open>compose\<close> that \<open>combineChannelCredentials\<close> makes on a channel
  credential \<open>ssl\<close> and the call credentials \<open>a\<close> and \<open>b\<close>: it composes \<open>b\<close> onto the
  composite of \<open>ssl\<close> and \<open>a\<close>, which is the chain, and it does not compose \<open>a\<close> with
  \<open>b\<close>, as \<open>composeChannel(ssl, composeCall(a, b))\<close> does.
\<close>

theorem combineChannelCredentials_differs:
  "combineChannelCredentials term_channel_compose (GivenChannel ''ssl'')
     [GivenCall ''a'', GivenCall ''b'']
   = Inr (ChannelCompose (ChannelCompose (GivenChannel ''ssl'') (GivenCall ''a''))
            (GivenCall ''b''))
   \<and> composeChannel_of_composeCall term_channel_compose term_call_compose
       (GivenChannel ''ssl'') (GivenCall ''a'') [GivenCall ''b'']
     = Inr (ChannelCompose (GivenChannel ''ssl'')
              (CallCompose (GivenCall ''a'') (GivenCall ''b'')))
   \<and> combineChannelCredentials term_channel_compose (GivenChannel ''ssl'')
       [GivenCall ''a'', GivenCall ''b'']
     \<noteq> composeChannel_of_composeCall term_channel_compose term_call_compose
         (GivenChannel ''ssl'') (GivenCall ''a'') [GivenCall ''b'']"
  by (simp add: combineChannelCredentials_def composeChannel_of_composeCall_def
      term_channel_compose_def term_call_compose_def)

text \<open>
  C3, as the code has it. \<open>combineChannelCredentials\<close> composes the call credentials onto
  the channel credential one at a time, from the left, with the \<open>compose\<close> method of the
  channel credential, whatever that method does: with no call credential it returns the
  channel credential; the last call credential is composed onto the result for the ones
  before it; and so, with two call credentials, the second is composed onto the composite
  of the channel credential and the first. With one call credential this is
  \<open>composeChannel(c, composeCall(k\<^sub>1))\<close>.
\<close>

theorem combineChannelCredentials_chain:
  "combineChannelCredentials compose c [] = Inr c
   \<and> combineChannelCredentials compose c (ks @ [k]) =
       (case combineChannelCredentials compose c ks of
          Inl e \<Rightarrow> Inl e
        | Inr c' \<Rightarrow> compose c' k)
   \<and> combineChannelCredentials compose c [k1, k2] =
       (case compose c k1 of
          Inl e \<Rightarrow> Inl e
        | Inr c1 \<Rightarrow> compose c1 k2)
   \<and> combineChannelCredentials compose c [k1] =
       composeChannel_of_composeCall compose call_compose c k1 []"
proof -
  have two: "combineChannelCredentials compose c [k1, k2] =
       (case compose c k1 of Inl e \<Rightarrow> Inl e | Inr c1 \<Rightarrow> compose c1 k2)"
    by (simp add: combineChannelCredentials_def split: sum.splits)
  have one: "combineChannelCredentials compose c [k1] =
       composeChannel_of_composeCall compose call_compose c k1 []"
    by (simp add: combineChannelCredentials_def composeChannel_of_composeCall_def
        split: sum.splits)
  show ?thesis
    using two one by (simp add: combineChannelCredentials_def compose_loop_snoc)
qed

section \<open>Properties of the client surface\<close>

subsection \<open>Writes\<close>

text \<open>
  C5. When the batch that a write submits fails, with any error \<open>e\<close>, the write does
  nothing with its callback: it is not called, neither plainly nor with an error. The
  batch is the \<open>SEND_MESSAGE\<close> batch of the serialised chunk.
\<close>

theorem failed_write_is_dropped:
  assumes "ClientWritableStream_write serialize startBatch chunk encoding = (batch, effects)"
    and "startBatch batch = Some e"
  shows "effects = []
    \<and> batch = empty_batch
        \<lparr>SEND_MESSAGE := Some \<lparr>msg_data = serialize chunk, grpcWriteFlags = encoding\<rparr>\<rparr>"
  using assms
  by (auto simp: ClientWritableStream_write_def write_batch_callback_def Let_def
      split: option.splits)

text \<open>A write of two bytes on a call whose batches all fail.\<close>

theorem failed_write_is_dropped_witness:
  "ClientWritableStream_write (\<lambda>chunk. chunk) (\<lambda>batch. Some (Error ''startBatch failed''))
     [1, 2] None
   = (empty_batch\<lparr>SEND_MESSAGE := Some \<lparr>msg_data = [1, 2], grpcWriteFlags = None\<rparr>\<rparr>, [])"
  using failed_write_is_dropped
    [of "\<lambda>chunk. chunk" "\<lambda>batch. Some (Error ''startBatch failed'')" "[1, 2]" None
      "fst (ClientWritableStream_write (\<lambda>chunk. chunk)
              (\<lambda>batch. Some (Error ''startBatch failed'')) [1, 2] None)"
      "snd (ClientWritableStream_write (\<lambda>chunk. chunk)
              (\<lambda>batch. Some (Error ''startBatch failed'')) [1, 2] None)"
      "Error ''startBatch failed''"]
  by (simp add: prod_eq_iff)

subsection \<open>Deadlines\<close>

text \<open>
  C9. A call created with no options map, or with an options map that has no deadline,
  has the deadline \<open>Infinity\<close>; a call created with an options map that has a deadline
  \<open>d\<close> has the deadline \<open>d\<close>. Each of the four request shapes creates its call so.
\<close>

theorem getCall_deadline:
  fixes options :: "'cred call_options option" and opts :: "'cred call_options"
  shows "call_deadline (getCall channel method_name (None :: 'cred call_options option)) = Infinity
   \<and> (opt_deadline opts = None \<longrightarrow>
        call_deadline (getCall channel method_name (Some opts)) = Infinity)
   \<and> (opt_deadline opts = Some d \<longrightarrow>
        call_deadline (getCall channel method_name (Some opts)) = d)
   \<and> (makeUnaryRequest method_name serialize channel argument metadata options s = Inr r
        \<or> makeClientStreamRequest method_name channel metadata options s = Inr r
        \<or> makeServerStreamRequest method_name serialize channel argument metadata options s = Inr r
        \<or> makeBidiStreamRequest method_name channel metadata options s = Inr r
      \<longrightarrow> run_call r = getCall channel method_name options)"
proof -
  have drivers: "makeUnaryRequest method_name serialize channel argument metadata options s = Inr r
        \<or> makeClientStreamRequest method_name channel metadata options s = Inr r
        \<or> makeServerStreamRequest method_name serialize channel argument metadata options s = Inr r
        \<or> makeBidiStreamRequest method_name channel metadata options s = Inr r
      \<longrightarrow> run_call r = getCall channel method_name options"
    unfolding makeUnaryRequest_def makeClientStreamRequest_def makeServerStreamRequest_def
      makeBidiStreamRequest_def Let_def
    by (auto split: sum.splits prod.splits)
  have deadlines:
    "call_deadline (getCall channel method_name (None :: 'cred call_options option)) = Infinity
   \<and> (opt_deadline opts = None \<longrightarrow>
        call_deadline (getCall channel method_name (Some opts)) = Infinity)
   \<and> (opt_deadline opts = Some d \<longrightarrow>
        call_deadline (getCall channel method_name (Some opts)) = d)"
    by (auto simp: getCall_def new_Call_def setCredentials_def Let_def split: option.splits)
  from deadlines drivers show ?thesis by (intro conjI) (elim conjE, assumption)+
qed

text \<open>The call of the interop case \<open>timeout_on_sleeping_server\<close>, which gives a date.\<close>

lemma timeoutOnSleepingServer_fullDuplexCall:
  "makeBidiStreamRequest ''/grpc.testing.TestService/FullDuplexCall'' ''channel'' None
     (Some \<lparr>opt_deadline = Some (Date 1478167200001), opt_host = None, opt_parent = None,
            opt_propagate_flags = None, opt_credentials = None :: unit option,
            opt_flags = None\<rparr>) []
   = Inr \<lparr>run_store = [[]],
          run_call =
            \<lparr>call_channel = ''channel'',
             call_method = ''/grpc.testing.TestService/FullDuplexCall'',
             call_deadline = Date 1478167200001, call_host = None, call_parent = None,
             call_propagate_flags = None, call_credentials = None\<rparr>,
          run_batches =
            [empty_batch\<lparr>SEND_INITIAL_METADATA := Some (Core []), RECV_INITIAL_METADATA := True\<rparr>,
             empty_batch\<lparr>RECV_STATUS_ON_CLIENT := True\<rparr>]\<rparr>"
  by (simp add: makeBidiStreamRequest_def new_Metadata_def Metadata_new_def
      getCoreRepresentation_def getCall_def new_Call_def)

theorem getCall_deadline_witness:
  "call_deadline (getCall ''channel'' ''/grpc.testing.TestService/FullDuplexCall''
     (Some \<lparr>opt_deadline = None, opt_host = Some ''foo.test.google.fr'', opt_parent = None,
            opt_propagate_flags = None, opt_credentials = None :: unit option,
            opt_flags = None\<rparr>)) = Infinity
   \<and> call_deadline (getCall ''channel'' ''/grpc.testing.TestService/FullDuplexCall''
     (Some \<lparr>opt_deadline = Some (Date 1478167200001), opt_host = None, opt_parent = None,
            opt_propagate_flags = None, opt_credentials = None :: unit option,
            opt_flags = None\<rparr>)) = Date 1478167200001
   \<and> call_deadline (getCall ''channel'' ''/grpc.testing.TestService/FullDuplexCall''
     (None :: unit call_options option)) = Infinity
   \<and> \<lparr>call_channel = ''channel'',
       call_method = ''/grpc.testing.TestService/FullDuplexCall'',
       call_deadline = Date 1478167200001, call_host = None, call_parent = None,
       call_propagate_flags = None, call_credentials = None :: unit option\<rparr>
     = getCall ''channel'' ''/grpc.testing.TestService/FullDuplexCall''
         (Some \<lparr>opt_deadline = Some (Date 1478167200001), opt_host = None, opt_parent = None,
                opt_propagate_flags = None, opt_credentials = None :: unit option,
                opt_flags = None\<rparr>)"
proof -
  note absent = getCall_deadline
      [where channel = "''channel''"
        and method_name = "''/grpc.testing.TestService/FullDuplexCall''"
        and opts = "\<lparr>opt_deadline = None, opt_host = Some ''foo.test.google.fr'',
            opt_parent = None, opt_propagate_flags = None,
            opt_credentials = None :: unit option, opt_flags = None\<rparr>"]
  note given = getCall_deadline
      [where channel = "''channel''"
        and method_name = "''/grpc.testing.TestService/FullDuplexCall''"
        and opts = "\<lparr>opt_deadline = Some (Date 1478167200001), opt_host = None,
            opt_parent = None, opt_propagate_flags = None,
            opt_credentials = None :: unit option, opt_flags = None\<rparr>"
        and d = "Date 1478167200001"]
  have a: "call_deadline (getCall ''channel'' ''/grpc.testing.TestService/FullDuplexCall''
     (Some \<lparr>opt_deadline = None, opt_host = Some ''foo.test.google.fr'', opt_parent = None,
            opt_propagate_flags = None, opt_credentials = None :: unit option,
            opt_flags = None\<rparr>)) = Infinity"
    using absent [THEN conjunct2, THEN conjunct1] by simp
  have b: "call_deadline (getCall ''channel'' ''/grpc.testing.TestService/FullDuplexCall''
     (Some \<lparr>opt_deadline = Some (Date 1478167200001), opt_host = None, opt_parent = None,
            opt_propagate_flags = None, opt_credentials = None :: unit option,
            opt_flags = None\<rparr>)) = Date 1478167200001"
    using given [THEN conjunct2, THEN conjunct2, THEN conjunct1] by simp
  have c: "call_deadline (getCall ''channel'' ''/grpc.testing.TestService/FullDuplexCall''
     (None :: unit call_options option)) = Infinity"
    by (rule absent [THEN conjunct1])
  have d: "run_call
       \<lparr>run_store = [[]],
        run_call =
          \<lparr>call_channel = ''channel'',
           call_method = ''/grpc.testing.TestService/FullDuplexCall'',
           call_deadline = Date 1478167200001, call_host = None, call_parent = None,
           call_propagate_flags = None, call_credentials = None :: unit option\<rparr>,
        run_batches =
          [empty_batch\<lparr>SEND_INITIAL_METADATA := Some (Core []), RECV_INITIAL_METADATA := True\<rparr>,
           empty_batch\<lparr>RECV_STATUS_ON_CLIENT := True\<rparr>]\<rparr>
     = getCall ''channel'' ''/grpc.testing.TestService/FullDuplexCall''
         (Some \<lparr>opt_deadline = Some (Date 1478167200001), opt_host = None, opt_parent = None,
                opt_propagate_flags = None, opt_credentials = None :: unit option,
                opt_flags = None\<rparr>)"
    by (rule getCall_deadline [THEN conjunct2, THEN conjunct2, THEN conjunct2, THEN mp,
          OF disjI2 [OF disjI2 [OF disjI2 [OF timeoutOnSleepingServer_fullDuplexCall]]]])
  show ?thesis using a b c d by simp
qed

subsection \<open>The caller's metadata\<close>

lemma metadata_object_for_request:
  assumes "(case metadata of None \<Rightarrow> Inr (new_Metadata s) | Some a \<Rightarrow> clone s a) = Inr (m, s')"
  shows "take (length s) s' = s \<and> m = length s \<and> length s' = Suc (length s)
    \<and> s' ! m = (case metadata of None \<Rightarrow> [] | Some a \<Rightarrow> s ! a)
    \<and> (\<forall>a. metadata = Some a \<longrightarrow> a < length s \<and> s' ! a = s ! a)"
  using assms
  by (auto simp: new_Metadata_def clone_def Metadata_new_def nth_append
      split: option.splits if_splits)

lemma unary_keeps_metadata:
  "makeUnaryRequest method serialize channel argument metadata options s = Inr r \<Longrightarrow>
   take (length s) (run_store r) = s \<and> length (run_store r) = Suc (length s)
   \<and> (\<forall>a. metadata = Some a \<longrightarrow> a < length s \<and> run_store r ! a = s ! a)
   \<and> SEND_INITIAL_METADATA (hd (run_batches r)) =
       Some (getCoreRepresentation (case metadata of None \<Rightarrow> [] | Some a \<Rightarrow> s ! a))"
  unfolding makeUnaryRequest_def Let_def
  by (auto simp: empty_batch_def dest!: metadata_object_for_request
      split: sum.splits prod.splits)

lemma client_stream_keeps_metadata:
  "makeClientStreamRequest method channel metadata options s = Inr r \<Longrightarrow>
   take (length s) (run_store r) = s \<and> length (run_store r) = Suc (length s)
   \<and> (\<forall>a. metadata = Some a \<longrightarrow> a < length s \<and> run_store r ! a = s ! a)
   \<and> SEND_INITIAL_METADATA (hd (run_batches r)) =
       Some (getCoreRepresentation (case metadata of None \<Rightarrow> [] | Some a \<Rightarrow> s ! a))"
  unfolding makeClientStreamRequest_def Let_def
  by (auto simp: empty_batch_def dest!: metadata_object_for_request
      split: sum.splits prod.splits)

lemma server_stream_keeps_metadata:
  "makeServerStreamRequest method serialize channel argument metadata options s = Inr r \<Longrightarrow>
   take (length s) (run_store r) = s \<and> length (run_store r) = Suc (length s)
   \<and> (\<forall>a. metadata = Some a \<longrightarrow> a < length s \<and> run_store r ! a = s ! a)
   \<and> SEND_INITIAL_METADATA (hd (run_batches r)) =
       Some (getCoreRepresentation (case metadata of None \<Rightarrow> [] | Some a \<Rightarrow> s ! a))"
  unfolding makeServerStreamRequest_def Let_def
  by (auto simp: empty_batch_def dest!: metadata_object_for_request
      split: sum.splits prod.splits)

lemma bidi_keeps_metadata:
  "makeBidiStreamRequest method channel metadata options s = Inr r \<Longrightarrow>
   take (length s) (run_store r) = s \<and> length (run_store r) = Suc (length s)
   \<and> (\<forall>a. metadata = Some a \<longrightarrow> a < length s \<and> run_store r ! a = s ! a)
   \<and> SEND_INITIAL_METADATA (hd (run_batches r)) =
       Some (getCoreRepresentation (case metadata of None \<Rightarrow> [] | Some a \<Rightarrow> s ! a))"
  unfolding makeBidiStreamRequest_def Let_def
  by (auto simp: empty_batch_def dest!: metadata_object_for_request
      split: sum.splits prod.splits)

text \<open>
  C10. Whichever of the four request shapes is invoked, with a Metadata object of the
  caller's or with none: every Metadata object that existed before the request, the
  caller's among them, has the entries it had; the request has made exactly one new
  object; and the initial metadata of the first batch is the entries of the caller's
  object, or no entry when the caller gave none.
\<close>

theorem requests_keep_caller_metadata:
  assumes "makeUnaryRequest method serialize channel argument metadata options s = Inr r
        \<or> makeClientStreamRequest method channel metadata options s = Inr r
        \<or> makeServerStreamRequest method serialize channel argument metadata options s = Inr r
        \<or> makeBidiStreamRequest method channel metadata options s = Inr r"
  shows "take (length s) (run_store r) = s \<and> length (run_store r) = Suc (length s)
   \<and> (\<forall>a. metadata = Some a \<longrightarrow> a < length s \<and> run_store r ! a = s ! a)
   \<and> SEND_INITIAL_METADATA (hd (run_batches r)) =
       Some (getCoreRepresentation (case metadata of None \<Rightarrow> [] | Some a \<Rightarrow> s ! a))"
  using assms
proof (elim disjE)
  assume "makeUnaryRequest method serialize channel argument metadata options s = Inr r"
  then show ?thesis by (rule unary_keeps_metadata)
next
  assume "makeClientStreamRequest method channel metadata options s = Inr r"
  then show ?thesis by (rule client_stream_keeps_metadata)
next
  assume "makeServerStreamRequest method serialize channel argument metadata options s = Inr r"
  then show ?thesis by (rule server_stream_keeps_metadata)
next
  assume "makeBidiStreamRequest method channel metadata options s = Inr r"
  then show ?thesis by (rule bidi_keeps_metadata)
qed

text \<open>The \<open>fullDuplexCall\<close> of the interop case \<open>custom_metadata\<close>; the caller's Metadata
  object is the only object of the store.\<close>

lemma customMetadata_fullDuplexCall:
  "makeBidiStreamRequest ''/grpc.testing.TestService/FullDuplexCall'' ''channel'' (Some 0)
     (None :: unit call_options option)
     [[(''x-grpc-test-echo-initial'', Text ''test_initial_metadata_value'')]]
   = Inr \<lparr>run_store = [[(''x-grpc-test-echo-initial'', Text ''test_initial_metadata_value'')],
                       [(''x-grpc-test-echo-initial'', Text ''test_initial_metadata_value'')]],
          run_call = getCall ''channel'' ''/grpc.testing.TestService/FullDuplexCall'' None,
          run_batches =
            [empty_batch\<lparr>SEND_INITIAL_METADATA :=
                 Some (Core [(''x-grpc-test-echo-initial'', Text ''test_initial_metadata_value'')]),
               RECV_INITIAL_METADATA := True\<rparr>,
             empty_batch\<lparr>RECV_STATUS_ON_CLIENT := True\<rparr>]\<rparr>"
  by (simp add: makeBidiStreamRequest_def clone_def getCoreRepresentation_def)

theorem requests_keep_caller_metadata_witness:
  "makeBidiStreamRequest ''/grpc.testing.TestService/FullDuplexCall'' ''channel'' (Some 0)
     (None :: unit call_options option)
     [[(''x-grpc-test-echo-initial'', Text ''test_initial_metadata_value'')]]
   = Inr \<lparr>run_store = [[(''x-grpc-test-echo-initial'', Text ''test_initial_metadata_value'')],
                       [(''x-grpc-test-echo-initial'', Text ''test_initial_metadata_value'')]],
          run_call = getCall ''channel'' ''/grpc.testing.TestService/FullDuplexCall'' None,
          run_batches =
            [empty_batch\<lparr>SEND_INITIAL_METADATA :=
                 Some (Core [(''x-grpc-test-echo-initial'', Text ''test_initial_metadata_value'')]),
               RECV_INITIAL_METADATA := True\<rparr>,
             empty_batch\<lparr>RECV_STATUS_ON_CLIENT := True\<rparr>]\<rparr>
   \<and> take (length [[(''x-grpc-test-echo-initial'', Text ''test_initial_metadata_value'')]])
        [[(''x-grpc-test-echo-initial'', Text ''test_initial_metadata_value'')],
         [(''x-grpc-test-echo-initial'', Text ''test_initial_metadata_value'')]]
      = [[(''x-grpc-test-echo-initial'', Text ''test_initial_metadata_value'')]]"
  using customMetadata_fullDuplexCall
    requests_keep_caller_metadata
      [OF disjI2 [OF disjI2 [OF disjI2 [OF customMetadata_fullDuplexCall]]]]
  by simp

subsection \<open>Completion of a unary or client-streaming request\<close>

text \<open>
  For a batch that completes without a batch error: a status that is not \<open>OK\<close> goes to
  the callback as an error with the code and the details of the status and the trailing
  metadata; a status \<open>OK\<close> with a response that deserialises goes to the callback as
  the value.
\<close>

lemma unary_batch_callback_not_OK:
  "cs_code (resp_status response) \<noteq> OK \<Longrightarrow>
   unary_batch_callback deserialize err response =
     [CallbackError \<lparr>err_message = cs_details (resp_status response),
                     err_code = Some (cs_code (resp_status response)),
                     err_metadata = Some (fromCoreRepresentation (cs_metadata (resp_status response)))\<rparr>,
      EmitStatus \<lparr>st_code = cs_code (resp_status response),
                  st_details = cs_details (resp_status response),
                  st_metadata = Some (fromCoreRepresentation (cs_metadata (resp_status response)))\<rparr>,
      EmitMetadata (fromCoreRepresentation (resp_metadata response))]"
  by (simp add: unary_batch_callback_def)

lemma unary_batch_callback_OK:
  "cs_code (resp_status response) = OK \<Longrightarrow> deserialize (resp_read response) = Some d \<Longrightarrow>
   unary_batch_callback deserialize None response =
     [CallbackValue (Some d),
      EmitStatus \<lparr>st_code = OK,
                  st_details = cs_details (resp_status response),
                  st_metadata = Some (fromCoreRepresentation (cs_metadata (resp_status response)))\<rparr>,
      EmitMetadata (fromCoreRepresentation (resp_metadata response))]"
  by (simp add: unary_batch_callback_def)

lemma unary_batch_callback_parse_failure:
  "cs_code (resp_status response) = OK \<Longrightarrow> deserialize (resp_read response) = None \<Longrightarrow>
   unary_batch_callback deserialize None response =
     [CallbackError \<lparr>err_message = cs_details (resp_status response),
                     err_code = Some INTERNAL,
                     err_metadata = None\<rparr>,
      EmitStatus \<lparr>st_code = INTERNAL,
                  st_details = ''Failed to parse server response'',
                  st_metadata = None\<rparr>,
      EmitMetadata (fromCoreRepresentation (resp_metadata response))]"
  by (simp add: unary_batch_callback_def)

lemma client_stream_batch_callback_not_OK:
  "cs_code (resp_status response) \<noteq> OK \<Longrightarrow>
   client_stream_batch_callback deserialize err response =
     [CallbackError \<lparr>err_message = cs_details (resp_status response),
                     err_code = Some (cs_code (resp_status response)),
                     err_metadata = Some (fromCoreRepresentation (cs_metadata (resp_status response)))\<rparr>,
      EmitStatus \<lparr>st_code = cs_code (resp_status response),
                  st_details = cs_details (resp_status response),
                  st_metadata = Some (fromCoreRepresentation (cs_metadata (resp_status response)))\<rparr>]"
  by (simp add: client_stream_batch_callback_def)

lemma client_stream_batch_callback_OK:
  "cs_code (resp_status response) = OK \<Longrightarrow> deserialize (resp_read response) = Some d \<Longrightarrow>
   client_stream_batch_callback deserialize None response =
     [CallbackValue (Some d),
      EmitStatus \<lparr>st_code = OK,
                  st_details = cs_details (resp_status response),
                  st_metadata = Some (fromCoreRepresentation (cs_metadata (resp_status response)))\<rparr>]"
  by (simp add: client_stream_batch_callback_def)

lemma client_stream_batch_callback_parse_failure:
  "cs_code (resp_status response) = OK \<Longrightarrow> deserialize (resp_read response) = None \<Longrightarrow>
   client_stream_batch_callback deserialize None response =
     [CallbackError \<lparr>err_message = cs_details (resp_status response),
                     err_code = Some INTERNAL,
                     err_metadata = None\<rparr>,
      EmitStatus \<lparr>st_code = INTERNAL,
                  st_details = ''Failed to parse server response'',
                  st_metadata = None\<rparr>]"
  by (simp add: client_stream_batch_callback_def)

lemma batch_error_with_OK_status:
  "cs_code (resp_status response) = OK \<Longrightarrow>
   unary_batch_callback deserialize (Some e) response = [CallbackError e]
   \<and> client_stream_batch_callback deserialize (Some e) response = [CallbackError e]"
  by (simp add: unary_batch_callback_def client_stream_batch_callback_def)

text \<open>
  C1. A unary request, and a client-streaming request, whose batch completes with no
  batch error, the status \<open>OK\<close> with the details \<open>OK\<close>, and a message on which
  \<open>deserialize\<close> throws. The status is changed to \<open>INTERNAL\<close> with the details
  \<open>Failed to parse server response\<close>, and that status is emitted; the error that the
  callback receives has the code \<open>INTERNAL\<close>, but its message is the details of the
  status received, \<open>OK\<close>, and it has no metadata.
\<close>

theorem parse_failure_error_message:
  "unary_batch_callback (Map.empty :: buffer \<Rightarrow> string option) None
     \<lparr>resp_status = \<lparr>cs_code = OK, cs_details = ''OK'', cs_metadata = Core []\<rparr>,
      resp_read = [8, 1], resp_metadata = Core []\<rparr>
   = [CallbackError \<lparr>err_message = ''OK'', err_code = Some INTERNAL, err_metadata = None\<rparr>,
      EmitStatus \<lparr>st_code = INTERNAL, st_details = ''Failed to parse server response'',
                  st_metadata = None\<rparr>,
      EmitMetadata []]
   \<and> client_stream_batch_callback (Map.empty :: buffer \<Rightarrow> string option) None
     \<lparr>resp_status = \<lparr>cs_code = OK, cs_details = ''OK'', cs_metadata = Core []\<rparr>,
      resp_read = [8, 1], resp_metadata = Core []\<rparr>
   = [CallbackError \<lparr>err_message = ''OK'', err_code = Some INTERNAL, err_metadata = None\<rparr>,
      EmitStatus \<lparr>st_code = INTERNAL, st_details = ''Failed to parse server response'',
                  st_metadata = None\<rparr>]"
  by (simp add: unary_batch_callback_def client_stream_batch_callback_def
      fromCoreRepresentation_def)

subsection \<open>The client constructor\<close>

lemma each_method_rejects:
  "\<exists>name \<in> fst ` set methods. startsWith name ''$'' \<Longrightarrow>
   each_method prototype methods = Inl (Error ''Method names cannot start with $'')"
proof (induction methods arbitrary: prototype)
  case Nil
  then show ?case by simp
next
  case (Cons entry methods)
  obtain name attrs where entry: "entry = (name, attrs)" by (cases entry)
  show ?case
  proof (cases "startsWith name ''$''")
    case True
    then show ?thesis by (simp add: entry define_method_def)
  next
    case False
    with Cons.prems entry have "\<exists>name \<in> fst ` set methods. startsWith name ''$''" by auto
    from Cons.IH [OF this] False show ?thesis
      by (simp add: entry define_method_def)
  qed
qed

lemma each_method_defines:
  "\<forall>name \<in> fst ` set methods. \<not> startsWith name ''$'' \<Longrightarrow>
   \<exists>prototype'. each_method prototype methods = Inr prototype'
     \<and> dom prototype' = dom prototype \<union> fst ` set methods
     \<and> (\<forall>name. name \<notin> fst ` set methods \<longrightarrow> prototype' name = prototype name)
     \<and> (distinct (map fst methods) \<longrightarrow>
          (\<forall>(name, attrs) \<in> set methods. prototype' name = Some (requester attrs)))"
proof (induction methods arbitrary: prototype)
  case Nil
  then show ?case by simp
next
  case (Cons entry methods)
  obtain name attrs where entry: "entry = (name, attrs)" by (cases entry)
  from Cons.prems entry have ok: "\<not> startsWith name ''$''"
    and rest: "\<forall>name \<in> fst ` set methods. \<not> startsWith name ''$''"
    by auto
  have step: "define_method prototype name attrs = Inr (prototype(name \<mapsto> requester attrs))"
    using ok by (simp add: define_method_def)
  from Cons.IH [OF rest, of "prototype(name \<mapsto> requester attrs)"] obtain prototype' where
    run: "each_method (prototype(name \<mapsto> requester attrs)) methods = Inr prototype'" and
    keys: "dom prototype' = dom (prototype(name \<mapsto> requester attrs)) \<union> fst ` set methods" and
    others: "\<forall>n. n \<notin> fst ` set methods \<longrightarrow>
               prototype' n = (prototype(name \<mapsto> requester attrs)) n" and
    entries: "distinct (map fst methods) \<longrightarrow>
          (\<forall>(name, attrs) \<in> set methods. prototype' name = Some (requester attrs))"
    by blast
  have "each_method prototype (entry # methods) = Inr prototype'"
    by (simp add: entry step run)
  moreover have "dom prototype' = dom prototype \<union> fst ` set (entry # methods)"
    using keys by (auto simp: entry)
  moreover have "\<forall>n. n \<notin> fst ` set (entry # methods) \<longrightarrow> prototype' n = prototype n"
    using others by (auto simp: entry)
  moreover have "distinct (map fst (entry # methods)) \<longrightarrow>
          (\<forall>(name, attrs) \<in> set (entry # methods). prototype' name = Some (requester attrs))"
  proof
    assume d: "distinct (map fst (entry # methods))"
    then have fresh: "name \<notin> fst ` set methods" and d': "distinct (map fst methods)"
      by (auto simp: entry)
    from others fresh have "prototype' name = Some (requester attrs)" by simp
    with entries d' show
      "\<forall>(name, attrs) \<in> set (entry # methods). prototype' name = Some (requester attrs)"
      by (simp add: entry)
  qed
  ultimately show ?case by blast
qed

text \<open>
  C4. If a name of the methods map starts with \<open>$\<close>, \<open>makeClientConstructor\<close> throws
  the error \<open>Method names cannot start with $\<close>, and no client can be constructed. If no
  name does, it returns the constructor, and the prototype of the clients has a method
  under each name of the map and under no other name: the requester made for the
  attributes of that entry (the keys of an object are distinct).
\<close>

theorem makeClientConstructor_reserved_prefix:
  "((\<exists>name \<in> fst ` set methods. startsWith name ''$'') \<longrightarrow>
      makeClientConstructor methods serviceName =
        Inl (Error ''Method names cannot start with $''))
   \<and> ((\<forall>name \<in> fst ` set methods. \<not> startsWith name ''$'') \<longrightarrow>
        (\<exists>prototype. makeClientConstructor methods serviceName = Inr prototype
           \<and> dom prototype = fst ` set methods
           \<and> (distinct (map fst methods) \<longrightarrow>
                (\<forall>(name, attrs) \<in> set methods. prototype name = Some (requester attrs)))))"
proof (intro conjI impI)
  assume "\<exists>name \<in> fst ` set methods. startsWith name ''$''"
  then show "makeClientConstructor methods serviceName =
        Inl (Error ''Method names cannot start with $'')"
    by (simp add: makeClientConstructor_def each_method_rejects)
next
  assume "\<forall>name \<in> fst ` set methods. \<not> startsWith name ''$''"
  from each_method_defines [OF this, of Map.empty]
  show "\<exists>prototype. makeClientConstructor methods serviceName = Inr prototype
           \<and> dom prototype = fst ` set methods
           \<and> (distinct (map fst methods) \<longrightarrow>
                (\<forall>(name, attrs) \<in> set methods. prototype name = Some (requester attrs)))"
    by (auto simp: makeClientConstructor_def)
qed




text \<open>A methods map with the name \<open>$foo\<close>, and one with two methods of the test service.\<close>

lemma reserved_name_present:
  "\<exists>name \<in> fst ` set
     [(''unaryCall'', \<lparr>path = ''/grpc.testing.TestService/UnaryCall'', requestStream = False,
         responseStream = False, requestSerialize = (), responseDeserialize = ()\<rparr>),
      (''$foo'', \<lparr>path = ''/grpc.testing.TestService/Foo'', requestStream = False,
         responseStream = False, requestSerialize = (), responseDeserialize = ()\<rparr>)].
     startsWith name ''$''"
  by (simp add: startsWith_def)

lemma reserved_name_absent:
  "\<forall>name \<in> fst ` set
     [(''unaryCall'', \<lparr>path = ''/grpc.testing.TestService/UnaryCall'', requestStream = False,
         responseStream = False, requestSerialize = (), responseDeserialize = ()\<rparr>),
      (''fullDuplexCall'', \<lparr>path = ''/grpc.testing.TestService/FullDuplexCall'',
         requestStream = True, responseStream = True, requestSerialize = (),
         responseDeserialize = ()\<rparr>)].
     \<not> startsWith name ''$''"
  by (simp add: startsWith_def)

theorem makeClientConstructor_reserved_prefix_witness:
  "makeClientConstructor
     [(''unaryCall'', \<lparr>path = ''/grpc.testing.TestService/UnaryCall'', requestStream = False,
         responseStream = False, requestSerialize = (), responseDeserialize = ()\<rparr>),
      (''$foo'', \<lparr>path = ''/grpc.testing.TestService/Foo'', requestStream = False,
         responseStream = False, requestSerialize = (), responseDeserialize = ()\<rparr>)]
     ''grpc.testing.TestService''
   = Inl (Error ''Method names cannot start with $'')
   \<and> (\<exists>prototype.
        makeClientConstructor
          [(''unaryCall'', \<lparr>path = ''/grpc.testing.TestService/UnaryCall'', requestStream = False,
              responseStream = False, requestSerialize = (), responseDeserialize = ()\<rparr>),
           (''fullDuplexCall'', \<lparr>path = ''/grpc.testing.TestService/FullDuplexCall'',
              requestStream = True, responseStream = True, requestSerialize = (),
              responseDeserialize = ()\<rparr>)]
          ''grpc.testing.TestService''
        = Inr prototype
        \<and> prototype ''unaryCall'' =
            Some \<lparr>cm_maker = unary, cm_path = ''/grpc.testing.TestService/UnaryCall'',
                  cm_maker_serialize = (), cm_maker_deserialize = (),
                  cm_serialize = (), cm_deserialize = ()\<rparr>
        \<and> prototype ''fullDuplexCall'' =
            Some \<lparr>cm_maker = bidi, cm_path = ''/grpc.testing.TestService/FullDuplexCall'',
                  cm_maker_serialize = (), cm_maker_deserialize = (),
                  cm_serialize = (), cm_deserialize = ()\<rparr>)"
proof (rule conjI)
  show "makeClientConstructor
     [(''unaryCall'', \<lparr>path = ''/grpc.testing.TestService/UnaryCall'', requestStream = False,
         responseStream = False, requestSerialize = (), responseDeserialize = ()\<rparr>),
      (''$foo'', \<lparr>path = ''/grpc.testing.TestService/Foo'', requestStream = False,
         responseStream = False, requestSerialize = (), responseDeserialize = ()\<rparr>)]
     ''grpc.testing.TestService''
   = Inl (Error ''Method names cannot start with $'')"
    by (rule makeClientConstructor_reserved_prefix
        [THEN conjunct1, THEN mp, OF reserved_name_present])
next
  let ?methods =
    "[(''unaryCall'', \<lparr>path = ''/grpc.testing.TestService/UnaryCall'', requestStream = False,
         responseStream = False, requestSerialize = (), responseDeserialize = ()\<rparr>),
      (''fullDuplexCall'', \<lparr>path = ''/grpc.testing.TestService/FullDuplexCall'',
         requestStream = True, responseStream = True, requestSerialize = (),
         responseDeserialize = ()\<rparr>)]"
  from makeClientConstructor_reserved_prefix
    [THEN conjunct2, THEN mp, OF reserved_name_absent, of "''grpc.testing.TestService''"]
  obtain prototype where all:
    "makeClientConstructor ?methods ''grpc.testing.TestService'' = Inr prototype
     \<and> dom prototype = fst ` set ?methods
     \<and> (distinct (map fst ?methods) \<longrightarrow>
          (\<forall>(name, attrs) \<in> set ?methods. prototype name = Some (requester attrs)))" ..
  have "distinct (map fst ?methods)" by simp
  with all have entries:
    "\<forall>(name, attrs) \<in> set ?methods. prototype name = Some (requester attrs)"
    by (elim conjE impE)
  have "prototype ''unaryCall'' =
            Some \<lparr>cm_maker = unary, cm_path = ''/grpc.testing.TestService/UnaryCall'',
                  cm_maker_serialize = (), cm_maker_deserialize = (),
                  cm_serialize = (), cm_deserialize = ()\<rparr>"
    and "prototype ''fullDuplexCall'' =
            Some \<lparr>cm_maker = bidi, cm_path = ''/grpc.testing.TestService/FullDuplexCall'',
                  cm_maker_serialize = (), cm_maker_deserialize = (),
                  cm_serialize = (), cm_deserialize = ()\<rparr>"
    using entries by (simp_all add: requester_def)
  with all show "\<exists>prototype.
        makeClientConstructor ?methods ''grpc.testing.TestService'' = Inr prototype
        \<and> prototype ''unaryCall'' =
            Some \<lparr>cm_maker = unary, cm_path = ''/grpc.testing.TestService/UnaryCall'',
                  cm_maker_serialize = (), cm_maker_deserialize = (),
                  cm_serialize = (), cm_deserialize = ()\<rparr>
        \<and> prototype ''fullDuplexCall'' =
            Some \<lparr>cm_maker = bidi, cm_path = ''/grpc.testing.TestService/FullDuplexCall'',
                  cm_maker_serialize = (), cm_maker_deserialize = (),
                  cm_serialize = (), cm_deserialize = ()\<rparr>"
    by (intro exI [of _ prototype] conjI) (elim conjE, assumption)+
qed

subsection \<open>The user agent\<close>

lemma channel_args_lookup:
  "channel_args options = Inr args \<Longrightarrow>
   map_of args k = (case map_of options k of None \<Rightarrow> None | Some v \<Rightarrow> arg_of v)"
proof (induction options arbitrary: args)
  case Nil
  then show ?case by simp
next
  case (Cons entry options)
  then show ?case
    by (cases entry) (auto split: option.splits sum.splits)
qed

text \<open>
  A caller gives \<open>grpc.primary_user_agent = myapp/1.0\<close>: the channel is built with
  \<open>grpc-node/0.13.0\<close> under that key, and the caller's value is not a prefix of it.
\<close>

theorem Client_replaces_primary_user_agent:
  "Client ''0.13.0'' ''localhost:50051'' Insecure
     (Some [(''grpc.primary_user_agent'', JString ''myapp/1.0'')])
   = Inr \<lparr>ch_host = ''localhost:50051'', ch_creds = Insecure,
          ch_args = [(''grpc.primary_user_agent'', GRPC_ARG_STRING ''grpc-node/0.13.0'')]\<rparr>
   \<and> \<not> prefix ''myapp/1.0'' ''grpc-node/0.13.0''"
  by (simp add: Client_def Channel_New_def arg_of_def)

text \<open>
  C6, as the code has it. Whenever a client is constructed, the channel is built with the
  option \<open>grpc.primary_user_agent\<close> set to \<open>grpc-node/\<close> followed by the version of the
  library, whatever the caller gave under that key; every other option of the caller's
  reaches the channel as the caller gave it.
\<close>

theorem Client_sets_primary_user_agent:
  assumes "Client version address credentials options = Inr ch"
  shows "map_of (ch_args ch) ''grpc.primary_user_agent'' =
           Some (GRPC_ARG_STRING (''grpc-node/'' @ version))
    \<and> (\<forall>k. k \<noteq> ''grpc.primary_user_agent'' \<longrightarrow>
          map_of (ch_args ch) k =
            (case map_of (case options of None \<Rightarrow> [] | Some given \<Rightarrow> given) k of
               None \<Rightarrow> None
             | Some v \<Rightarrow> arg_of v))"
proof -
  define given where "given = (case options of None \<Rightarrow> [] | Some given \<Rightarrow> given)"
  from assms have args: "channel_args (AList.update ''grpc.primary_user_agent''
      (JString (''grpc-node/'' @ version)) given) = Inr (ch_args ch)"
    by (auto simp: Client_def Channel_New_def given_def Let_def split: sum.splits)
  show ?thesis
    unfolding given_def [symmetric]
    by (simp add: channel_args_lookup [OF args] update_conv' arg_of_def)
qed

text \<open>A caller with a target name override and a user agent of its own.\<close>

theorem Client_sets_primary_user_agent_witness:
  "Client ''0.13.0'' ''localhost:50051'' Insecure
     (Some [(''grpc.ssl_target_name_override'', JString ''foo.test.google.fr''),
            (''grpc.primary_user_agent'', JString ''myapp/1.0'')])
   = Inr \<lparr>ch_host = ''localhost:50051'', ch_creds = Insecure,
          ch_args = [(''grpc.ssl_target_name_override'', GRPC_ARG_STRING ''foo.test.google.fr''),
                     (''grpc.primary_user_agent'', GRPC_ARG_STRING ''grpc-node/0.13.0'')]\<rparr>
   \<and> map_of [(''grpc.ssl_target_name_override'', GRPC_ARG_STRING ''foo.test.google.fr''),
             (''grpc.primary_user_agent'', GRPC_ARG_STRING ''grpc-node/0.13.0'')]
        ''grpc.primary_user_agent'' = Some (GRPC_ARG_STRING ''grpc-node/0.13.0'')"
proof -
  have run: "Client ''0.13.0'' ''localhost:50051'' Insecure
     (Some [(''grpc.ssl_target_name_override'', JString ''foo.test.google.fr''),
            (''grpc.primary_user_agent'', JString ''myapp/1.0'')])
   = Inr \<lparr>ch_host = ''localhost:50051'', ch_creds = Insecure,
          ch_args = [(''grpc.ssl_target_name_override'', GRPC_ARG_STRING ''foo.test.google.fr''),
                     (''grpc.primary_user_agent'', GRPC_ARG_STRING ''grpc-node/0.13.0'')]\<rparr>"
    by (simp add: Client_def Channel_New_def arg_of_def)
  from Client_sets_primary_user_agent [OF run] run show ?thesis by simp
qed

end
